theory Spec2Isabelle
  imports Complex_Main
begin

section \<open>The turn engine of the studio simulator (script.js)\<close>

text \<open>
  The development embeds the simulation core of \<^verbatim>\<open>script.js\<close>: the shared
  \<^verbatim>\<open>simulationState\<close> object, the four agents (Translator, Inquisitor, Producer,
  Marketing), answer resolution, the release procedure and \<^verbatim>\<open>advanceWeek\<close>.
  Canvas drawing and DOM wiring are left out.

  Conventions of the embedding.
  \<^item> A JavaScript string is a \<^typ>\<open>string\<close>: a list of code units below 256
    (the Latin-1 range). Text beyond that range is outside the model.
  \<^item> A JavaScript number is a \<^typ>\<open>real\<close> (counters that only hold
    non-negative integers are \<^typ>\<open>nat\<close>); rounding of doubles is not modelled.
  \<^item> Everything the code obtains from outside during one turn (the replies of the text
    generation service, the values of \<^verbatim>\<open>Math.random()\<close>, the order in which
    the pending agents complete) is read from an environment record.
  \<^item> The status lines of \<^verbatim>\<open>lastAgentActivity\<close> are kept as structured messages
    (one constructor per template string of the source) instead of rendered text.
\<close>

subsection \<open>String primitives\<close>

text \<open>\<^verbatim>\<open>String.prototype.toLowerCase\<close> on code units below 256: A-Z and the
  accented capitals 0xC0-0xDE (but not the multiplication sign 0xD7) move up by 32.\<close>

definition toLowerChar :: "char \<Rightarrow> char" where
  "toLowerChar c =
     (let n = (of_char c :: nat)
      in if (65 \<le> n \<and> n \<le> 90) \<or> (192 \<le> n \<and> n \<le> 222 \<and> n \<noteq> 215)
         then char_of (n + 32) else c)"

definition toLowerCase :: "string \<Rightarrow> string" where
  "toLowerCase s = map toLowerChar s"

text \<open>\<^verbatim>\<open>s.startsWith(p)\<close>.\<close>

definition startsWith :: "string \<Rightarrow> string \<Rightarrow> bool" where
  "startsWith s p = (take (length p) s = p)"

text \<open>\<^verbatim>\<open>s.includes(p)\<close>: \<open>p\<close> occurs at some position of \<open>s\<close>.\<close>

fun includesStr :: "string \<Rightarrow> string \<Rightarrow> bool" where
  "includesStr [] p = (p = [])"
| "includesStr (c # cs) p = (startsWith (c # cs) p \<or> includesStr cs p)"

text \<open>White space as \<^verbatim>\<open>\s\<close> and \<^verbatim>\<open>trim\<close> see it, below 256: TAB, LF, VT, FF, CR,
  space and the no-break space.\<close>

definition isSpace :: "char \<Rightarrow> bool" where
  "isSpace c = ((of_char c :: nat) \<in> {9, 10, 11, 12, 13, 32, 160})"

definition trim :: "string \<Rightarrow> string" where
  "trim s = rev (dropWhile isSpace (rev (dropWhile isSpace s)))"

text \<open>The character class \<^verbatim>\<open>[a-z0-9]\<close>.\<close>

definition isLowerAlnum :: "char \<Rightarrow> bool" where
  "isLowerAlnum c =
     (let n = (of_char c :: nat) in (97 \<le> n \<and> n \<le> 122) \<or> (48 \<le> n \<and> n \<le> 57))"

text \<open>Decimal rendering of a non-negative integer, as a template literal prints it.\<close>

fun showNat :: "nat \<Rightarrow> string" where
  "showNat n =
     (if n < 10 then [char_of (48 + n)]
      else showNat (n div 10) @ [char_of (48 + n mod 10)])"

text \<open>The match of \<^verbatim>\<open>/(\/answer\s+)(uq-[a-z0-9]+)/\<close> anchored at the head of \<open>s\<close>; the
  result is group 2. Both repetitions are greedy and neither can give characters back:
  what follows \<^verbatim>\<open>\s+\<close> must be the letter u, and nothing follows the id.\<close>

definition answerMatchAt :: "string \<Rightarrow> string option" where
  "answerMatchAt s =
     (if startsWith s ''/answer'' then
        (let r = drop 7 s;
             r2 = dropWhile isSpace r;
             run = takeWhile isLowerAlnum (drop 3 r2)
         in if takeWhile isSpace r \<noteq> [] \<and> startsWith r2 ''uq-'' \<and> run \<noteq> []
            then Some (''uq-'' @ run) else None)
      else None)"

text \<open>\<^verbatim>\<open>input.match(...)\<close> without the g flag: the leftmost position at which the
  pattern matches.\<close>

fun answerMatch :: "string \<Rightarrow> string option" where
  "answerMatch [] = answerMatchAt []"
| "answerMatch (c # cs) =
     (case answerMatchAt (c # cs) of Some i \<Rightarrow> Some i | None \<Rightarrow> answerMatch cs)"

subsection \<open>The simulation state\<close>

record quantumData =
  name :: "string option"
  description :: "string option"

record quantum =
  quantumType :: string
  qdata :: quantumData
  quantumId :: string
  version :: nat
  status :: string
  createdAt :: string
  declarationSource :: string

datatype questionStatus = Open | Answered

record question =
  qid :: string
  qtext :: string
  qstatus :: questionStatus
  sourceQuantumId :: string

record bugReport =
  bugId :: string
  bugText :: string
  week :: nat
  sourceQuestionId :: string

text \<open>One constructor per status template of the source.\<close>

datatype activity =
    AwaitingInput | AwaitingProjectStart | PlanningPhase
  | CreatedQuanta nat | NoNewQuanta | AnsweredQuestion string
  | NoNewFacts | Analyzing nat | GeneratedQuestions nat | NoNewQuestions
  | Idle | ProgressGain real | BugReported | Released real
  | Planning | CreativeBlock | HypeText string

record agentActivity =
  translator :: activity
  inquisitor :: activity
  producer :: activity
  marketing :: activity

record gameState =
  currentWeek :: nat
  projectName :: string
  budget :: real
  designCompleteness :: real
  buildProgress :: real
  bugs :: nat
  marketHype :: real
  weeklySpend :: real
  marketingActive :: bool
  gameReleased :: bool
  finalScore :: real
  commandQueue :: "string list"
  lastAgentActivity :: agentActivity

record simulationState =
  isWaitingForAgents :: bool
  agentStatusText :: string
  gameState :: gameState
  quantumCore :: "quantum list"
  unansweredQuestions :: "question list"
  bugReports :: "bugReport list"

text \<open>The command with which the queue is seeded.\<close>

definition defaultCommand :: string where
  "defaultCommand =
     ''/declare 'Project Chimera' is a third-person action RPG with stealth elements, set in a cyberpunk fantasy world.''"

definition initialState :: simulationState where
  "initialState =
     \<lparr> isWaitingForAgents = False,
       agentStatusText = ''Idle'',
       gameState =
         \<lparr> currentWeek = 1,
           projectName = ''Project Chimera'',
           budget = 1000000,
           designCompleteness = 0,
           buildProgress = 0,
           bugs = 0,
           marketHype = 0,
           weeklySpend = 5000,
           marketingActive = False,
           gameReleased = False,
           finalScore = 0,
           commandQueue = [defaultCommand],
           lastAgentActivity =
             \<lparr> translator = AwaitingInput, inquisitor = Idle,
               producer = AwaitingProjectStart, marketing = PlanningPhase \<rparr> \<rparr>,
       quantumCore = [],
       unansweredQuestions = [],
       bugReports = [] \<rparr>"

subsection \<open>The environment of one turn\<close>

datatype agent = Inquisitor | Producer | Marketing

text \<open>The six orders in which the three agent tasks of a turn can complete.\<close>

datatype completion = IPM | IMP | PIM | PMI | MIP | MPI

fun agentsIn :: "completion \<Rightarrow> agent list" where
  "agentsIn IPM = [Inquisitor, Producer, Marketing]"
| "agentsIn IMP = [Inquisitor, Marketing, Producer]"
| "agentsIn PIM = [Producer, Inquisitor, Marketing]"
| "agentsIn PMI = [Producer, Marketing, Inquisitor]"
| "agentsIn MIP = [Marketing, Inquisitor, Producer]"
| "agentsIn MPI = [Marketing, Producer, Inquisitor]"

text \<open>
  \<^item> \<open>idSuffix p k\<close>: the random part of the \<open>k\<close>-th identifier generated with prefix
    \<open>p\<close> in this turn (\<^verbatim>\<open>Math.random().toString(36).substr(2, 9)\<close>);
  \<^item> \<open>agentReply a k prompt\<close>: what \<^verbatim>\<open>queryAgent\<close> resolves to for the \<open>k\<close>-th
    request of agent \<open>a\<close> in this turn: the trimmed generated text, or a string
    starting with \<^verbatim>\<open>Fallback:\<close> on any failure;
  \<^item> \<open>bugSeed\<close>, \<open>blameSeed\<close>: seeds of the two \<^verbatim>\<open>Math.random()\<close> calls of the
    Producer;
  \<^item> \<open>completionOrder\<close>: the order in which agent tasks that wait for the service
    resume.

  Every request is taken to be answered: a turn whose request never resolves does not
  complete and is not described.
\<close>

record env =
  idSuffix :: "string \<Rightarrow> nat \<Rightarrow> string"
  agentReply :: "agent \<Rightarrow> nat \<Rightarrow> string \<Rightarrow> string"
  bugSeed :: real
  blameSeed :: real
  completionOrder :: completion

text \<open>\<^verbatim>\<open>Math.random()\<close> returns a number in \<open>[0, 1)\<close>: the fractional part of
  the seed, so that every seed is admissible and every value of the interval is reached.\<close>

definition mathRandom :: "real \<Rightarrow> real" where
  "mathRandom seed = seed - of_int \<lfloor>seed\<rfloor>"

definition generateId :: "env \<Rightarrow> string \<Rightarrow> nat \<Rightarrow> string" where
  "generateId e prefix k = prefix @ ''-'' @ idSuffix e prefix k"

definition weekString :: "nat \<Rightarrow> string" where
  "weekString w = ''Week '' @ showNat w"

subsection \<open>Writing a status line\<close>

abbreviation setTranslator :: "activity \<Rightarrow> simulationState \<Rightarrow> simulationState" where
  "setTranslator a s \<equiv>
     s\<lparr>gameState := (gameState s)\<lparr>lastAgentActivity :=
         (lastAgentActivity (gameState s))\<lparr>translator := a\<rparr>\<rparr>\<rparr>"

abbreviation setInquisitor :: "activity \<Rightarrow> simulationState \<Rightarrow> simulationState" where
  "setInquisitor a s \<equiv>
     s\<lparr>gameState := (gameState s)\<lparr>lastAgentActivity :=
         (lastAgentActivity (gameState s))\<lparr>inquisitor := a\<rparr>\<rparr>\<rparr>"

abbreviation setProducer :: "activity \<Rightarrow> simulationState \<Rightarrow> simulationState" where
  "setProducer a s \<equiv>
     s\<lparr>gameState := (gameState s)\<lparr>lastAgentActivity :=
         (lastAgentActivity (gameState s))\<lparr>producer := a\<rparr>\<rparr>\<rparr>"

abbreviation setMarketing :: "activity \<Rightarrow> simulationState \<Rightarrow> simulationState" where
  "setMarketing a s \<equiv>
     s\<lparr>gameState := (gameState s)\<lparr>lastAgentActivity :=
         (lastAgentActivity (gameState s))\<lparr>marketing := a\<rparr>\<rparr>\<rparr>"

subsection \<open>Translator\<close>

text \<open>The seven keyword tests of \<^verbatim>\<open>translatorTurn\<close>, in source order: keyword,
  quantum type and payload.\<close>

definition translatorTemplates :: "(string \<times> string \<times> quantumData) list" where
  "translatorTemplates =
     [(''rpg'', ''Genre'', \<lparr>name = Some ''Action RPG'', description = None\<rparr>),
      (''stealth'', ''MechanicPillar'', \<lparr>name = Some ''Stealth'', description = None\<rparr>),
      (''cyberpunk'', ''Setting'', \<lparr>name = Some ''Cyberpunk Fantasy'', description = None\<rparr>),
      (''protagonist'', ''Character'', \<lparr>name = Some ''Unit 734'', description = None\<rparr>),
      (''ghostwire'', ''Ability'', \<lparr>name = Some ''Ghostwire'', description = None\<rparr>),
      (''art style'', ''ArtStyle'', \<lparr>name = Some ''Dystopian Baroque'', description = None\<rparr>),
      (''gameplay loop'', ''GameplayLoop'',
         \<lparr>name = None, description = Some ''Explore, Contract, Takedown, Upgrade''\<rparr>)]"

definition matchedTemplates :: "string \<Rightarrow> (string \<times> quantumData) list" where
  "matchedTemplates input =
     map snd (filter (\<lambda>t. includesStr (toLowerCase input) (fst t)) translatorTemplates)"

text \<open>The body of the \<^verbatim>\<open>forEach\<close>: the \<open>k\<close>-th new quantum of the command.\<close>

definition finishQuantum ::
  "env \<Rightarrow> nat \<Rightarrow> string \<Rightarrow> nat \<times> string \<times> quantumData \<Rightarrow> quantum" where
  "finishQuantum e w input kt =
     \<lparr> quantumType = fst (snd kt), qdata = snd (snd kt),
       quantumId = generateId e ''q'' (fst kt), version = 1, status = ''Active'',
       createdAt = weekString w, declarationSource = input \<rparr>"

text \<open>The first write of the status line (\<^verbatim>\<open>Parsing: ...\<close>) is overwritten on both
  branches before the function returns, and is left out.\<close>

definition translatorTurn :: "env \<Rightarrow> string \<Rightarrow> simulationState \<Rightarrow> bool \<times> simulationState" where
  "translatorTurn e input s =
     (let newQuanta = matchedTemplates input
      in if length newQuanta > 0
         then (True,
               setTranslator (CreatedQuanta (length newQuanta))
                 (s\<lparr>quantumCore := quantumCore s @
                      map (finishQuantum e (currentWeek (gameState s)) input)
                        (enumerate 0 newQuanta)\<rparr>))
         else (False, setTranslator NoNewQuanta s))"

subsection \<open>Answer resolution\<close>

text \<open>\<^verbatim>\<open>question.status = "Answered"\<close> on the object that \<^verbatim>\<open>find\<close> returned: the first
  question of the ledger with that id.\<close>

fun markAnswered :: "string \<Rightarrow> question list \<Rightarrow> question list" where
  "markAnswered i [] = []"
| "markAnswered i (q # qs) =
     (if qid q = i then q\<lparr>qstatus := Answered\<rparr> # qs else q # markAnswered i qs)"

definition resolveAnswer :: "env \<Rightarrow> string \<Rightarrow> simulationState \<Rightarrow> bool \<times> simulationState" where
  "resolveAnswer e input s =
     (case answerMatch input of
        Some questionId \<Rightarrow>
          (case find (\<lambda>q. qid q = questionId) (unansweredQuestions s) of
             Some question \<Rightarrow>
               (let s1 = s\<lparr>unansweredQuestions :=
                             markAnswered questionId (unansweredQuestions s)\<rparr>;
                    s2 = snd (translatorTurn e input s1)
                in (True, setTranslator (AnsweredQuestion questionId) s2))
           | None \<Rightarrow> (False, snd (translatorTurn e input s)))
      | None \<Rightarrow> (False, snd (translatorTurn e input s)))"

subsection \<open>Inquisitor\<close>

definition recentQuanta :: "simulationState \<Rightarrow> quantum list" where
  "recentQuanta s =
     filter (\<lambda>q. createdAt q = weekString (currentWeek (gameState s))) (quantumCore s)"

text \<open>\<^verbatim>\<open>${q.data.name || q.data.description}\<close>: an absent or empty name gives way to the
  description; an absent description prints as \<^verbatim>\<open>undefined\<close>.\<close>

definition nameOrDescription :: "quantumData \<Rightarrow> string" where
  "nameOrDescription d =
     (case name d of
        Some n \<Rightarrow>
          (if n \<noteq> [] then n
           else (case description d of Some x \<Rightarrow> x | None \<Rightarrow> ''undefined''))
      | None \<Rightarrow> (case description d of Some x \<Rightarrow> x | None \<Rightarrow> ''undefined''))"

definition designFact :: "quantum \<Rightarrow> string" where
  "designFact q = ''['' @ quantumType q @ ''] '' @ nameOrDescription (qdata q)"

definition fromAnswer :: "quantum \<Rightarrow> bool" where
  "fromAnswer q = startsWith (toLowerCase (declarationSource q)) ''/answer''"

definition acceptedQuestion :: "string \<Rightarrow> bool" where
  "acceptedQuestion questionText =
     (\<not> startsWith questionText ''Fallback:'' \<and> length questionText > 10)"

text \<open>The \<^verbatim>\<open>for ... of\<close> loop over the recent quanta. \<open>asked\<close> logs the quanta for
  which \<^verbatim>\<open>queryAgent\<close> has been called so far, \<open>newQuestions\<close> is the array of the
  source.\<close>

fun inquisitorLoop ::
  "env \<Rightarrow> quantum list \<Rightarrow> quantum list \<Rightarrow> question list \<Rightarrow> quantum list \<times> question list" where
  "inquisitorLoop e [] asked newQuestions = (asked, newQuestions)"
| "inquisitorLoop e (q # qs) asked newQuestions =
     (if fromAnswer q then inquisitorLoop e qs asked newQuestions
      else
        (let questionText = agentReply e Inquisitor (length asked) (designFact q)
         in if acceptedQuestion questionText
            then inquisitorLoop e qs (asked @ [q])
                   (newQuestions @
                      [\<lparr> qid = generateId e ''uq'' (length newQuestions),
                         qtext = questionText, qstatus = Open,
                         sourceQuantumId = quantumId q \<rparr>])
            else inquisitorLoop e qs (asked @ [q]) newQuestions))"

text \<open>What follows the loop; \<open>recent\<close> is the array captured when the task started.\<close>

definition inquisitorResume :: "env \<Rightarrow> quantum list \<Rightarrow> simulationState \<Rightarrow> simulationState" where
  "inquisitorResume e recent s =
     (let newQuestions = snd (inquisitorLoop e recent [] [])
      in if length newQuestions > 0
         then setInquisitor (GeneratedQuestions (length newQuestions))
                (s\<lparr>unansweredQuestions := unansweredQuestions s @ newQuestions\<rparr>)
         else setInquisitor NoNewQuestions s)"

text \<open>The synchronous head of \<^verbatim>\<open>inquisitorTurn\<close>, up to its first \<^verbatim>\<open>await\<close>. The second
  component holds the captured array while the task waits for the service; when the
  loop asks nothing the task runs to its end at once.\<close>

definition inquisitorLaunch ::
  "env \<Rightarrow> simulationState \<Rightarrow> simulationState \<times> quantum list option" where
  "inquisitorLaunch e s =
     (let recent = recentQuanta s
      in if length recent = 0 then (setInquisitor NoNewFacts s, None)
         else
           (let s1 = setInquisitor (Analyzing (length recent)) s
            in if fst (inquisitorLoop e recent [] []) = []
               then (inquisitorResume e recent s1, None)
               else (s1, Some recent)))"

text \<open>The whole of \<^verbatim>\<open>inquisitorTurn\<close>, run to completion on its own.\<close>

definition inquisitorTurn :: "env \<Rightarrow> simulationState \<Rightarrow> simulationState" where
  "inquisitorTurn e s =
     (case inquisitorLaunch e s of
        (s1, None) \<Rightarrow> s1
      | (s1, Some recent) \<Rightarrow> inquisitorResume e recent s1)"

subsection \<open>Release and scoring\<close>

definition releaseGame :: "simulationState \<Rightarrow> simulationState" where
  "releaseGame s =
     (let g = gameState s;
          designScore = designCompleteness g;
          hypeScore = marketHype g;
          qualityScore = max 0 (100 - real (bugs g) * 2);
          score = designScore * 0.4 + hypeScore * 0.3 + qualityScore * 0.3
      in s\<lparr>gameState := g\<lparr>gameReleased := True, finalScore := score,
             lastAgentActivity := (lastAgentActivity g)\<lparr>producer := Released score\<rparr>\<rparr>\<rparr>)"

subsection \<open>Producer\<close>

text \<open>The tail of \<^verbatim>\<open>producerTurn\<close>: write the activity log, release at 100.\<close>

definition producerEnd :: "activity \<Rightarrow> simulationState \<Rightarrow> simulationState" where
  "producerEnd activityLog s =
     (let s1 = setProducer activityLog s
      in if buildProgress (gameState s1) \<ge> 100 then releaseGame s1 else s1)"

definition openQuestionsOf :: "simulationState \<Rightarrow> question list" where
  "openQuestionsOf s = filter (\<lambda>q. qstatus q = Open) (unansweredQuestions s)"

definition progressThisWeek :: "nat \<Rightarrow> real" where
  "progressThisWeek openCount = max 0.5 (5 - real openCount * 0.5)"

text \<open>The synchronous head of \<^verbatim>\<open>producerTurn\<close>. When the bug draw succeeds the task
  waits for the bug text, holding the blamed question and the progress of the week.\<close>

definition producerLaunch ::
  "env \<Rightarrow> simulationState \<Rightarrow> simulationState \<times> (question \<times> real) option" where
  "producerLaunch e s =
     (if length (quantumCore s) = 0 \<or> gameReleased (gameState s)
      then (setProducer Idle s, None)
      else
        (let g = gameState s;
             openQuestions = openQuestionsOf s;
             p = progressThisWeek (length openQuestions);
             s1 = s\<lparr>gameState := g\<lparr>budget := budget g - weeklySpend g,
                       buildProgress := min 100 (buildProgress g + p)\<rparr>\<rparr>
         in if length openQuestions > 0 \<and>
               mathRandom (bugSeed e) < real (length openQuestions) * 0.15
            then (s1,
                  Some (openQuestions !
                          nat \<lfloor>mathRandom (blameSeed e) * real (length openQuestions)\<rfloor>,
                        p))
            else (producerEnd (ProgressGain p) s1, None)))"

definition bugPrompt :: "question \<Rightarrow> string" where
  "bugPrompt questionToBlame =
     ''The unresolved question is: '' @ [CHR 0x22] @ qtext questionToBlame @ [CHR 0x22]"

text \<open>The continuation of \<^verbatim>\<open>producerTurn\<close> once the bug text has arrived.\<close>

definition producerResume ::
  "env \<Rightarrow> question \<times> real \<Rightarrow> simulationState \<Rightarrow> simulationState" where
  "producerResume e task s =
     (let questionToBlame = fst task;
          reply = agentReply e Producer 0 (bugPrompt questionToBlame)
      in if \<not> startsWith reply ''Fallback:''
         then producerEnd BugReported
                (s\<lparr>gameState := (gameState s)\<lparr>bugs := bugs (gameState s) + 1\<rparr>,
                   bugReports := bugReports s @
                     [\<lparr> bugId = generateId e ''bug'' 0, bugText = reply,
                        week = currentWeek (gameState s),
                        sourceQuestionId = qid questionToBlame \<rparr>]\<rparr>)
         else producerEnd (ProgressGain (snd task)) s)"

text \<open>The whole of \<^verbatim>\<open>producerTurn\<close>, run to completion on its own.\<close>

definition producerTurn :: "env \<Rightarrow> simulationState \<Rightarrow> simulationState" where
  "producerTurn e s =
     (case producerLaunch e s of
        (s1, None) \<Rightarrow> s1
      | (s1, Some task) \<Rightarrow> producerResume e task s1)"

subsection \<open>Marketing\<close>

text \<open>The unconditional tail of an active \<^verbatim>\<open>marketingTurn\<close>.\<close>

definition marketingEnd :: "simulationState \<Rightarrow> simulationState" where
  "marketingEnd s =
     (let g = gameState s;
          hypeThisWeek = real (length (quantumCore s)) / 2
      in s\<lparr>gameState := g\<lparr>marketHype := min 100 (marketHype g + hypeThisWeek),
             weeklySpend := weeklySpend g + 2000\<rparr>\<rparr>)"

definition hypeable :: "quantum \<Rightarrow> bool" where
  "hypeable q =
     (quantumType q \<in> set [''Ability'', ''Character'', ''MechanicPillar'', ''Setting''])"

definition featureDescription :: "quantum \<Rightarrow> string" where
  "featureDescription f =
     ''The new game feature is a '' @ quantumType f @ '' called '' @ [CHR 0x27] @
       (case name (qdata f) of Some n \<Rightarrow> n | None \<Rightarrow> ''undefined'') @ [CHR 0x27] @ ''.''"

definition marketingLaunch ::
  "env \<Rightarrow> simulationState \<Rightarrow> simulationState \<times> quantum option" where
  "marketingLaunch e s =
     (if \<not> marketingActive (gameState s) \<or> gameReleased (gameState s)
      then (setMarketing Planning s, None)
      else
        (case find hypeable (recentQuanta s) of
           Some featureToHype \<Rightarrow> (s, Some featureToHype)
         | None \<Rightarrow> (marketingEnd s, None)))"

definition marketingResume :: "env \<Rightarrow> quantum \<Rightarrow> simulationState \<Rightarrow> simulationState" where
  "marketingResume e featureToHype s =
     (let hypeText = agentReply e Marketing 0 (featureDescription featureToHype)
      in marketingEnd
           (setMarketing
              (if startsWith hypeText ''Fallback:'' then CreativeBlock else HypeText hypeText)
              s))"

text \<open>The whole of \<^verbatim>\<open>marketingTurn\<close>, run to completion on its own.\<close>

definition marketingTurn :: "env \<Rightarrow> simulationState \<Rightarrow> simulationState" where
  "marketingTurn e s =
     (case marketingLaunch e s of
        (s1, None) \<Rightarrow> s1
      | (s1, Some featureToHype) \<Rightarrow> marketingResume e featureToHype s1)"

subsection \<open>The turn engine\<close>

text \<open>The DOM side of \<^verbatim>\<open>setWaitingState\<close> (disabling the controls, redrawing) is left
  out.\<close>

definition setWaitingState :: "bool \<Rightarrow> string \<Rightarrow> simulationState \<Rightarrow> simulationState" where
  "setWaitingState isWaiting statusText s =
     s\<lparr>isWaitingForAgents := isWaiting, agentStatusText := statusText\<rparr>"

text \<open>The first part of \<^verbatim>\<open>advanceWeek\<close>: take the head of the command queue and
  dispatch on its prefix. The result is the variable \<^verbatim>\<open>processed\<close>.\<close>

definition commandStep :: "env \<Rightarrow> simulationState \<Rightarrow> bool \<times> simulationState" where
  "commandStep e s =
     (case commandQueue (gameState s) of
        [] \<Rightarrow> (False, s)
      | input # rest \<Rightarrow>
          (let s1 = s\<lparr>gameState := (gameState s)\<lparr>commandQueue := rest\<rparr>\<rparr>
           in if input \<noteq> [] \<and> trim input \<noteq> []
              then (if startsWith input ''/declare'' then translatorTurn e input s1
                    else if startsWith input ''/answer'' then resolveAnswer e input s1
                    else (False, s1))
              else (False, s1)))"

text \<open>What the agent tasks that wait for the text generation service have captured.\<close>

record pending =
  inquisitorTask :: "quantum list option"
  producerTask :: "(question \<times> real) option"
  marketingTask :: "quantum option"

text \<open>The activation of Marketing between the calls of \<^verbatim>\<open>producerTurn\<close> and
  \<^verbatim>\<open>marketingTurn\<close>.\<close>

definition activateMarketing :: "simulationState \<Rightarrow> simulationState" where
  "activateMarketing s =
     (if currentWeek (gameState s) > 5
      then s\<lparr>gameState := (gameState s)\<lparr>marketingActive := True\<rparr>\<rparr>
      else s)"

text \<open>The calls of the three async functions in \<^verbatim>\<open>advanceWeek\<close>: each runs up to its
  first \<^verbatim>\<open>await\<close> before the next one is called.\<close>

definition launchAgents ::
  "env \<Rightarrow> bool \<Rightarrow> simulationState \<Rightarrow> simulationState \<times> pending" where
  "launchAgents e processed s =
     (let (s1, ti) = (if processed then inquisitorLaunch e s else (s, None));
          (s2, tp) = producerLaunch e s1;
          s3 = activateMarketing s2;
          (s4, tm) = marketingLaunch e s3
      in (s4, \<lparr>inquisitorTask = ti, producerTask = tp, marketingTask = tm\<rparr>))"

text \<open>A waiting task resumes and runs to its end; a task that has ended already does
  nothing more.\<close>

definition resumeAgent :: "env \<Rightarrow> pending \<Rightarrow> agent \<Rightarrow> simulationState \<Rightarrow> simulationState" where
  "resumeAgent e p a s =
     (case a of
        Inquisitor \<Rightarrow>
          (case inquisitorTask p of Some recent \<Rightarrow> inquisitorResume e recent s | None \<Rightarrow> s)
      | Producer \<Rightarrow>
          (case producerTask p of Some task \<Rightarrow> producerResume e task s | None \<Rightarrow> s)
      | Marketing \<Rightarrow>
          (case marketingTask p of Some f \<Rightarrow> marketingResume e f s | None \<Rightarrow> s))"

text \<open>\<^verbatim>\<open>await Promise.all(agentPromises)\<close>: the waiting tasks resume one after the other,
  in the order in which their requests are answered.\<close>

definition awaitAgents :: "env \<Rightarrow> pending \<Rightarrow> simulationState \<Rightarrow> simulationState" where
  "awaitAgents e p s = fold (resumeAgent e p) (agentsIn (completionOrder e)) s"

definition completenessOf :: "nat \<Rightarrow> nat \<Rightarrow> real" where
  "completenessOf quanta openQuestions =
     (let totalItems = quanta + openQuestions
      in if totalItems > 0 then (real quanta / real totalItems) * 100
         else (if quanta > 0 then 100 else 0))"

text \<open>The part of \<^verbatim>\<open>advanceWeek\<close> after the join.\<close>

definition endOfTurn :: "simulationState \<Rightarrow> simulationState" where
  "endOfTurn s =
     (let s1 = setWaitingState False ''Thinking complete. Proceeding to next week.'' s;
          g = gameState s1
      in s1\<lparr>gameState := g\<lparr>currentWeek := currentWeek g + 1,
              designCompleteness :=
                completenessOf (length (quantumCore s1)) (length (openQuestionsOf s1))\<rparr>\<rparr>)"

definition advanceWeek :: "env \<Rightarrow> simulationState \<Rightarrow> simulationState" where
  "advanceWeek e s =
     (if gameReleased (gameState s) \<or> isWaitingForAgents s then s
      else
        (let (processed, s1) = commandStep e s;
             s2 = setWaitingState True ''Agents are thinking...'' s1;
             (s3, p) = launchAgents e processed s2
         in endOfTurn (awaitAgents e p s3)))"

text \<open>The states of the shared object in the course of one turn, in the order in which
  the synchronous segments of \<^verbatim>\<open>advanceWeek\<close> and of the three agent tasks leave
  them: the state before the turn; after the command step; after the waiting flag is
  set; after the call of \<^verbatim>\<open>inquisitorTurn\<close> (when it is called); after the call of
  \<^verbatim>\<open>producerTurn\<close>; after the activation of Marketing; after the call of
  \<^verbatim>\<open>marketingTurn\<close>; after each of the three tasks has had its turn to resume; and
  after the part that follows the join. A request that is refused leaves the single
  state it found.\<close>

fun resumeTrace ::
  "env \<Rightarrow> pending \<Rightarrow> agent list \<Rightarrow> simulationState \<Rightarrow> simulationState list" where
  "resumeTrace e p [] s = []"
| "resumeTrace e p (a # as) s =
     resumeAgent e p a s # resumeTrace e p as (resumeAgent e p a s)"

definition turnTrace :: "env \<Rightarrow> simulationState \<Rightarrow> simulationState list" where
  "turnTrace e s =
     (if gameReleased (gameState s) \<or> isWaitingForAgents s then [s]
      else
        (let processed = fst (commandStep e s);
             s1 = snd (commandStep e s);
             s2 = setWaitingState True ''Agents are thinking...'' s1;
             s3 = (if processed then fst (inquisitorLaunch e s2) else s2);
             s4 = fst (producerLaunch e s3);
             s5 = activateMarketing s4;
             s6 = fst (marketingLaunch e s5);
             p = snd (launchAgents e processed s2);
             rs = resumeTrace e p (agentsIn (completionOrder e)) s6
         in [s, s1, s2, s3, s4, s5, s6] @ rs @ [endOfTurn (last (s6 # rs))]))"

text \<open>\<^verbatim>\<open>submitCommand\<close>, with the running flag of the automatic loop and the content of
  the input field as arguments.\<close>

definition submitCommand :: "bool \<Rightarrow> string \<Rightarrow> simulationState \<Rightarrow> simulationState" where
  "submitCommand isSimRunning command s =
     (let g = gameState s
      in if \<not> isSimRunning \<and> length (commandQueue g) > 0
         then s\<lparr>gameState := g\<lparr>commandQueue := (commandQueue g)[0 := command]\<rparr>\<rparr>
         else if trim command \<noteq> []
              then s\<lparr>gameState := g\<lparr>commandQueue := commandQueue g @ [command]\<rparr>\<rparr>
              else s)"

text \<open>The states of a page session: the initial state, turns and submitted commands.\<close>

inductive reachable :: "simulationState \<Rightarrow> bool" where
  start: "reachable initialState"
| turn: "reachable s \<Longrightarrow> reachable (advanceWeek e s)"
| submit: "reachable s \<Longrightarrow> reachable (submitCommand r c s)"

subsection \<open>Auxiliary notions\<close>

text \<open>The guard of \<^verbatim>\<open>producerTurn\<close>, negated.\<close>

definition producerRuns :: "simulationState \<Rightarrow> bool" where
  "producerRuns s = (quantumCore s \<noteq> [] \<and> \<not> gameReleased (gameState s))"

definition marketingFirst :: "completion \<Rightarrow> bool" where
  "marketingFirst c = (Marketing \<in> set (takeWhile (\<lambda>a. a \<noteq> Producer) (agentsIn c)))"

definition hypeGain :: "simulationState \<Rightarrow> real" where
  "hypeGain s = min 100 (marketHype (gameState s) + real (length (quantumCore s)) / 2)"

definition scoreAt :: "real \<Rightarrow> real \<Rightarrow> nat \<Rightarrow> real" where
  "scoreAt d h b = d * 0.4 + h * 0.3 + max 0 (100 - real b * 2) * 0.3"

definition turnInvariant :: "simulationState \<Rightarrow> bool" where
  "turnInvariant s =
     (buildProgress (gameState s) \<le> 100 \<and> marketHype (gameState s) \<le> 100 \<and>
      \<not> isWaitingForAgents s \<and>
      (100 \<le> buildProgress (gameState s) \<longrightarrow> gameReleased (gameState s)))"

subsection \<open>Example inputs\<close>

definition exampleQuantum :: quantum where
  "exampleQuantum =
     \<lparr> quantumType = ''MechanicPillar'',
       qdata = \<lparr>name = Some ''Stealth'', description = None\<rparr>,
       quantumId = ''q-1'', version = 1, status = ''Active'',
       createdAt = ''Week 1'', declarationSource = ''/declare stealth'' \<rparr>"

definition exampleQuestion :: question where
  "exampleQuestion =
     \<lparr> qid = ''uq-1'', qtext = ''How is the player detected?'', qstatus = Open,
       sourceQuantumId = ''q-1'' \<rparr>"

definition exampleEnv :: env where
  "exampleEnv =
     \<lparr> idSuffix = (\<lambda>p k. showNat k),
       agentReply = (\<lambda>a k p. ''Bug #404: guards see through walls.''),
       bugSeed = 0.1, blameSeed = 0.5, completionOrder = IPM \<rparr>"

definition stateNoQuestions :: simulationState where
  "stateNoQuestions = initialState\<lparr>quantumCore := [exampleQuantum]\<rparr>"

definition stateOneQuestion :: simulationState where
  "stateOneQuestion =
     initialState\<lparr>quantumCore := [exampleQuantum], unansweredQuestions := [exampleQuestion]\<rparr>"

definition answeredQuestion :: question where
  "answeredQuestion = exampleQuestion\<lparr>qstatus := Answered\<rparr>"

definition stateAnswered :: simulationState where
  "stateAnswered =
     initialState\<lparr>quantumCore := [exampleQuantum], unansweredQuestions := [answeredQuestion]\<rparr>"

definition stateUnknownAnswer :: simulationState where
  "stateUnknownAnswer =
     initialState\<lparr>gameState := (gameState initialState)\<lparr>commandQueue := [''/answer uq-9 stealth'']\<rparr>\<rparr>"

definition offlineEnv :: env where
  "offlineEnv =
     \<lparr> idSuffix = (\<lambda>p k. showNat k),
       agentReply = (\<lambda>a k p. ''Fallback: The agent is offline.''),
       bugSeed = 0.9, blameSeed = 0.5, completionOrder = PIM \<rparr>"

definition oneQuestionEnv :: env where
  "oneQuestionEnv =
     \<lparr> idSuffix = (\<lambda>p k. showNat k),
       agentReply = (\<lambda>a k p. if a = Inquisitor \<and> k = 0 then ''How is the player detected?''
                              else ''Fallback: The agent is offline.''),
       bugSeed = 0.9, blameSeed = 0.5, completionOrder = PIM \<rparr>"

definition stateEmptyQueue :: simulationState where
  "stateEmptyQueue = initialState\<lparr>gameState := (gameState initialState)\<lparr>commandQueue := []\<rparr>\<rparr>"

definition askingEnv :: env where
  "askingEnv =
     \<lparr> idSuffix = (\<lambda>p k. showNat k),
       agentReply = (\<lambda>a k p. ''Which districts can be explored?''),
       bugSeed = 0.9, blameSeed = 0.5, completionOrder = MIP \<rparr>"

definition stateNearRelease :: simulationState where
  "stateNearRelease =
     initialState
       \<lparr> gameState := (gameState initialState)
           \<lparr> currentWeek := 20, designCompleteness := 100, buildProgress := 95,
             commandQueue := [''/declare ghostwire''] \<rparr>,
         quantumCore := [exampleQuantum] \<rparr>"

definition launchedNearRelease :: "simulationState \<times> pending" where
  "launchedNearRelease =
     launchAgents askingEnv (fst (commandStep askingEnv stateNearRelease))
       (setWaitingState True ''Agents are thinking...''
          (snd (commandStep askingEnv stateNearRelease)))"


section \<open>Properties of the agents\<close>

subsection \<open>Release and the Producer\<close>


lemma releaseGame_frame [simp]:
  "quantumCore (releaseGame s) = quantumCore s"
  "unansweredQuestions (releaseGame s) = unansweredQuestions s"
  "bugReports (releaseGame s) = bugReports s"
  "isWaitingForAgents (releaseGame s) = isWaitingForAgents s"
  "agentStatusText (releaseGame s) = agentStatusText s"
  "currentWeek (gameState (releaseGame s)) = currentWeek (gameState s)"
  "designCompleteness (gameState (releaseGame s)) = designCompleteness (gameState s)"
  "buildProgress (gameState (releaseGame s)) = buildProgress (gameState s)"
  "bugs (gameState (releaseGame s)) = bugs (gameState s)"
  "marketHype (gameState (releaseGame s)) = marketHype (gameState s)"
  "marketingActive (gameState (releaseGame s)) = marketingActive (gameState s)"
  "commandQueue (gameState (releaseGame s)) = commandQueue (gameState s)"
  by (simp_all add: releaseGame_def Let_def)

lemma releaseGame_effect [simp]:
  "gameReleased (gameState (releaseGame s))"
  "finalScore (gameState (releaseGame s)) =
     designCompleteness (gameState s) * 0.4 + marketHype (gameState s) * 0.3 +
     max 0 (100 - real (bugs (gameState s)) * 2) * 0.3"
  by (simp_all add: releaseGame_def Let_def)

lemma producerEnd_frame [simp]:
  "quantumCore (producerEnd a s) = quantumCore s"
  "unansweredQuestions (producerEnd a s) = unansweredQuestions s"
  "bugReports (producerEnd a s) = bugReports s"
  "isWaitingForAgents (producerEnd a s) = isWaitingForAgents s"
  "agentStatusText (producerEnd a s) = agentStatusText s"
  "currentWeek (gameState (producerEnd a s)) = currentWeek (gameState s)"
  "designCompleteness (gameState (producerEnd a s)) = designCompleteness (gameState s)"
  "buildProgress (gameState (producerEnd a s)) = buildProgress (gameState s)"
  "bugs (gameState (producerEnd a s)) = bugs (gameState s)"
  "marketHype (gameState (producerEnd a s)) = marketHype (gameState s)"
  "marketingActive (gameState (producerEnd a s)) = marketingActive (gameState s)"
  "commandQueue (gameState (producerEnd a s)) = commandQueue (gameState s)"
  by (simp_all add: producerEnd_def Let_def)

lemma producerEnd_released:
  "gameReleased (gameState (producerEnd a s)) =
     (100 \<le> buildProgress (gameState s) \<or> gameReleased (gameState s))"
  by (simp add: producerEnd_def Let_def)

lemma producerEnd_finalScore:
  "finalScore (gameState (producerEnd a s)) =
     (if 100 \<le> buildProgress (gameState s)
      then designCompleteness (gameState s) * 0.4 + marketHype (gameState s) * 0.3 +
           max 0 (100 - real (bugs (gameState s)) * 2) * 0.3
      else finalScore (gameState s))"
  by (simp add: producerEnd_def Let_def)

lemma producerResume_frame [simp]:
  "quantumCore (producerResume e t s) = quantumCore s"
  "unansweredQuestions (producerResume e t s) = unansweredQuestions s"
  "isWaitingForAgents (producerResume e t s) = isWaitingForAgents s"
  "agentStatusText (producerResume e t s) = agentStatusText s"
  "currentWeek (gameState (producerResume e t s)) = currentWeek (gameState s)"
  "designCompleteness (gameState (producerResume e t s)) = designCompleteness (gameState s)"
  "buildProgress (gameState (producerResume e t s)) = buildProgress (gameState s)"
  "marketHype (gameState (producerResume e t s)) = marketHype (gameState s)"
  "marketingActive (gameState (producerResume e t s)) = marketingActive (gameState s)"
  "commandQueue (gameState (producerResume e t s)) = commandQueue (gameState s)"
  by (simp_all add: producerResume_def Let_def)

lemma producerResume_bugs:
  "bugs (gameState (producerResume e t s)) =
     (if startsWith (agentReply e Producer 0 (bugPrompt (fst t))) ''Fallback:''
      then bugs (gameState s) else bugs (gameState s) + 1)"
  "bugReports (producerResume e t s) =
     (if startsWith (agentReply e Producer 0 (bugPrompt (fst t))) ''Fallback:''
      then bugReports s
      else bugReports s @
        [\<lparr> bugId = generateId e ''bug'' 0,
           bugText = agentReply e Producer 0 (bugPrompt (fst t)),
           week = currentWeek (gameState s), sourceQuestionId = qid (fst t) \<rparr>])"
  by (simp_all add: producerResume_def Let_def)

lemma producerLaunch_frame [simp]:
  "quantumCore (fst (producerLaunch e s)) = quantumCore s"
  "unansweredQuestions (fst (producerLaunch e s)) = unansweredQuestions s"
  "bugReports (fst (producerLaunch e s)) = bugReports s"
  "isWaitingForAgents (fst (producerLaunch e s)) = isWaitingForAgents s"
  "agentStatusText (fst (producerLaunch e s)) = agentStatusText s"
  "currentWeek (gameState (fst (producerLaunch e s))) = currentWeek (gameState s)"
  "designCompleteness (gameState (fst (producerLaunch e s))) = designCompleteness (gameState s)"
  "bugs (gameState (fst (producerLaunch e s))) = bugs (gameState s)"
  "marketHype (gameState (fst (producerLaunch e s))) = marketHype (gameState s)"
  "marketingActive (gameState (fst (producerLaunch e s))) = marketingActive (gameState s)"
  "commandQueue (gameState (fst (producerLaunch e s))) = commandQueue (gameState s)"
  by (simp_all add: producerLaunch_def Let_def)

lemma producerLaunch_progress:
  "buildProgress (gameState (fst (producerLaunch e s))) =
     (if producerRuns s
      then min 100 (buildProgress (gameState s) + progressThisWeek (length (openQuestionsOf s)))
      else buildProgress (gameState s))"
  by (simp add: producerLaunch_def producerRuns_def Let_def)

lemma producerLaunch_task:
  "snd (producerLaunch e s) =
     (if producerRuns s \<and> openQuestionsOf s \<noteq> [] \<and>
         mathRandom (bugSeed e) < real (length (openQuestionsOf s)) * 0.15
      then Some (openQuestionsOf s !
                   nat \<lfloor>mathRandom (blameSeed e) * real (length (openQuestionsOf s))\<rfloor>,
                 progressThisWeek (length (openQuestionsOf s)))
      else None)"
  by (simp add: producerLaunch_def producerRuns_def Let_def)

lemma producerTurn_alt:
  "producerTurn e s =
     (case snd (producerLaunch e s) of
        None \<Rightarrow> fst (producerLaunch e s)
      | Some t \<Rightarrow> producerResume e t (fst (producerLaunch e s)))"
  by (simp add: producerTurn_def split: prod.splits option.splits)

lemma producerLaunch_no_open:
  "openQuestionsOf s = [] \<Longrightarrow> producerLaunch e s = producerLaunch e' s"
  by (simp add: producerLaunch_def Let_def)


text \<open>
  Claim C3. A Producer turn that runs (fact store non-empty, game not released) sets
  \<open>buildProgress\<close> to the old value plus \<open>max 0.5 (5 - openQuestions * 0.5)\<close>,
  clamped to 100. With no open question the gain is 5, the environment (random draws,
  service replies) is not consulted, and neither the bug count nor the bug ledger
  changes.
\<close>

theorem producer_progress_increment:
  assumes "quantumCore s \<noteq> []" and "\<not> gameReleased (gameState s)"
  shows "buildProgress (gameState (producerTurn e s)) =
           min 100 (buildProgress (gameState s) +
                    max 0.5 (5 - real (length (openQuestionsOf s)) * 0.5))
         \<and> (openQuestionsOf s = [] \<longrightarrow>
              buildProgress (gameState (producerTurn e s)) =
                min 100 (buildProgress (gameState s) + 5)
              \<and> producerTurn e s = producerTurn e' s
              \<and> bugs (gameState (producerTurn e s)) = bugs (gameState s)
              \<and> bugReports (producerTurn e s) = bugReports s)"
  using assms
  by (auto simp add: producerTurn_alt producerLaunch_progress producerLaunch_task producerRuns_def
      progressThisWeek_def producerLaunch_no_open[of s e e'] split: option.splits)


theorem producer_progress_increment_witness:
  "quantumCore stateNoQuestions \<noteq> [] \<and> \<not> gameReleased (gameState stateNoQuestions) \<and>
   openQuestionsOf stateNoQuestions = [] \<and>
   buildProgress (gameState (producerTurn exampleEnv stateNoQuestions)) = 5 \<and>
   bugs (gameState (producerTurn exampleEnv stateNoQuestions)) = 0 \<and>
   bugReports (producerTurn exampleEnv stateNoQuestions) = []"
  using producer_progress_increment[of stateNoQuestions exampleEnv exampleEnv]
  by (simp add: stateNoQuestions_def initialState_def openQuestionsOf_def)




subsection \<open>Inquisitor\<close>

lemma inquisitorLoop_asked:
  "fst (inquisitorLoop e qs asked nq) = asked @ filter (\<lambda>q. \<not> fromAnswer q) qs"
  by (induction qs arbitrary: asked nq) (simp_all add: Let_def)

lemma inquisitorLoop_questions:
  "map (\<lambda>x. (qtext x, qstatus x, sourceQuantumId x)) (snd (inquisitorLoop e qs asked nq)) =
   map (\<lambda>x. (qtext x, qstatus x, sourceQuantumId x)) nq @
   map (\<lambda>(k, q). (agentReply e Inquisitor k (designFact q), Open, quantumId q))
     (filter (\<lambda>(k, q). acceptedQuestion (agentReply e Inquisitor k (designFact q)))
        (enumerate (length asked) (filter (\<lambda>q. \<not> fromAnswer q) qs)))"
  by (induction qs arbitrary: asked nq) (simp_all add: Let_def)

lemma inquisitorResume_frame [simp]:
  "quantumCore (inquisitorResume e r s) = quantumCore s"
  "bugReports (inquisitorResume e r s) = bugReports s"
  "isWaitingForAgents (inquisitorResume e r s) = isWaitingForAgents s"
  "agentStatusText (inquisitorResume e r s) = agentStatusText s"
  "currentWeek (gameState (inquisitorResume e r s)) = currentWeek (gameState s)"
  "designCompleteness (gameState (inquisitorResume e r s)) = designCompleteness (gameState s)"
  "buildProgress (gameState (inquisitorResume e r s)) = buildProgress (gameState s)"
  "bugs (gameState (inquisitorResume e r s)) = bugs (gameState s)"
  "marketHype (gameState (inquisitorResume e r s)) = marketHype (gameState s)"
  "marketingActive (gameState (inquisitorResume e r s)) = marketingActive (gameState s)"
  "gameReleased (gameState (inquisitorResume e r s)) = gameReleased (gameState s)"
  "finalScore (gameState (inquisitorResume e r s)) = finalScore (gameState s)"
  "commandQueue (gameState (inquisitorResume e r s)) = commandQueue (gameState s)"
  by (simp_all add: inquisitorResume_def Let_def)

lemma inquisitorResume_questions:
  "unansweredQuestions (inquisitorResume e r s) =
     unansweredQuestions s @ snd (inquisitorLoop e r [] [])"
  by (simp add: inquisitorResume_def Let_def)

lemma inquisitorLoop_none_asked:
  assumes "fst (inquisitorLoop e qs [] []) = []"
  shows "snd (inquisitorLoop e qs [] []) = []"
proof -
  have "filter (\<lambda>q. \<not> fromAnswer q) qs = []"
    using assms by (simp add: inquisitorLoop_asked)
  then have "map (\<lambda>x. (qtext x, qstatus x, sourceQuantumId x)) (snd (inquisitorLoop e qs [] [])) = []"
    by (simp add: inquisitorLoop_questions)
  then show ?thesis by simp
qed

lemma inquisitorLaunch_frame [simp]:
  "quantumCore (fst (inquisitorLaunch e s)) = quantumCore s"
  "unansweredQuestions (fst (inquisitorLaunch e s)) = unansweredQuestions s"
  "bugReports (fst (inquisitorLaunch e s)) = bugReports s"
  "isWaitingForAgents (fst (inquisitorLaunch e s)) = isWaitingForAgents s"
  "agentStatusText (fst (inquisitorLaunch e s)) = agentStatusText s"
  "currentWeek (gameState (fst (inquisitorLaunch e s))) = currentWeek (gameState s)"
  "designCompleteness (gameState (fst (inquisitorLaunch e s))) = designCompleteness (gameState s)"
  "buildProgress (gameState (fst (inquisitorLaunch e s))) = buildProgress (gameState s)"
  "bugs (gameState (fst (inquisitorLaunch e s))) = bugs (gameState s)"
  "marketHype (gameState (fst (inquisitorLaunch e s))) = marketHype (gameState s)"
  "marketingActive (gameState (fst (inquisitorLaunch e s))) = marketingActive (gameState s)"
  "gameReleased (gameState (fst (inquisitorLaunch e s))) = gameReleased (gameState s)"
  "finalScore (gameState (fst (inquisitorLaunch e s))) = finalScore (gameState s)"
  "commandQueue (gameState (fst (inquisitorLaunch e s))) = commandQueue (gameState s)"
  by (simp_all add: inquisitorLaunch_def Let_def inquisitorResume_questions inquisitorLoop_none_asked)

lemma inquisitorLaunch_task:
  "snd (inquisitorLaunch e s) =
     (if fst (inquisitorLoop e (recentQuanta s) [] []) = [] then None
      else Some (recentQuanta s))"
  by (auto simp add: inquisitorLaunch_def Let_def)

lemma inquisitorTurn_alt:
  "inquisitorTurn e s =
     (case snd (inquisitorLaunch e s) of
        None \<Rightarrow> fst (inquisitorLaunch e s)
      | Some r \<Rightarrow> inquisitorResume e r (fst (inquisitorLaunch e s)))"
  by (simp add: inquisitorTurn_def split: prod.splits option.splits)

lemma inquisitorTurn_questions:
  "unansweredQuestions (inquisitorTurn e s) =
     unansweredQuestions s @ snd (inquisitorLoop e (recentQuanta s) [] [])"
  by (simp add: inquisitorTurn_alt inquisitorLaunch_task inquisitorResume_questions
      inquisitorLoop_none_asked)

text \<open>
  Claim C9. In an Inquisitor turn the quanta for which a question is requested are
  those of the quantum core whose \<open>createdAt\<close> is the current week string and whose
  \<open>declarationSource\<close>, lower-cased, does not start with \<^verbatim>\<open>/answer\<close>. The turn
  appends to the question ledger one question per request whose reply does not start with
  the fallback marker and is longer than 10 characters: its text is the reply, its
  status is Open and its \<open>sourceQuantumId\<close> is the id of the quantum asked about.
\<close>

theorem inquisitor_questions:
  "fst (inquisitorLoop e (recentQuanta s) [] []) =
     filter (\<lambda>q. createdAt q = weekString (currentWeek (gameState s)) \<and>
                 \<not> startsWith (toLowerCase (declarationSource q)) ''/answer'')
       (quantumCore s)
   \<and> unansweredQuestions (inquisitorTurn e s) =
       unansweredQuestions s @ snd (inquisitorLoop e (recentQuanta s) [] [])
   \<and> map (\<lambda>x. (qtext x, qstatus x, sourceQuantumId x))
       (snd (inquisitorLoop e (recentQuanta s) [] [])) =
     map (\<lambda>(k, q). (agentReply e Inquisitor k (designFact q), Open, quantumId q))
       (filter (\<lambda>(k, q). \<not> startsWith (agentReply e Inquisitor k (designFact q)) ''Fallback:'' \<and>
                          10 < length (agentReply e Inquisitor k (designFact q)))
          (enumerate 0 (fst (inquisitorLoop e (recentQuanta s) [] []))))"
proof (intro conjI)
  show "fst (inquisitorLoop e (recentQuanta s) [] []) =
     filter (\<lambda>q. createdAt q = weekString (currentWeek (gameState s)) \<and>
                 \<not> startsWith (toLowerCase (declarationSource q)) ''/answer'')
       (quantumCore s)"
    by (simp add: inquisitorLoop_asked recentQuanta_def fromAnswer_def conj_commute)
next
  show "unansweredQuestions (inquisitorTurn e s) =
       unansweredQuestions s @ snd (inquisitorLoop e (recentQuanta s) [] [])"
    by (rule inquisitorTurn_questions)
next
  show "map (\<lambda>x. (qtext x, qstatus x, sourceQuantumId x))
       (snd (inquisitorLoop e (recentQuanta s) [] [])) =
     map (\<lambda>(k, q). (agentReply e Inquisitor k (designFact q), Open, quantumId q))
       (filter (\<lambda>(k, q). \<not> startsWith (agentReply e Inquisitor k (designFact q)) ''Fallback:'' \<and>
                          10 < length (agentReply e Inquisitor k (designFact q)))
          (enumerate 0 (fst (inquisitorLoop e (recentQuanta s) [] []))))"
    by (simp add: inquisitorLoop_questions inquisitorLoop_asked acceptedQuestion_def)
qed


subsection \<open>Translator and answer resolution\<close>

lemma translatorTurn_frame [simp]:
  "unansweredQuestions (snd (translatorTurn e i s)) = unansweredQuestions s"
  "bugReports (snd (translatorTurn e i s)) = bugReports s"
  "isWaitingForAgents (snd (translatorTurn e i s)) = isWaitingForAgents s"
  "agentStatusText (snd (translatorTurn e i s)) = agentStatusText s"
  "currentWeek (gameState (snd (translatorTurn e i s))) = currentWeek (gameState s)"
  "designCompleteness (gameState (snd (translatorTurn e i s))) = designCompleteness (gameState s)"
  "buildProgress (gameState (snd (translatorTurn e i s))) = buildProgress (gameState s)"
  "bugs (gameState (snd (translatorTurn e i s))) = bugs (gameState s)"
  "marketHype (gameState (snd (translatorTurn e i s))) = marketHype (gameState s)"
  "marketingActive (gameState (snd (translatorTurn e i s))) = marketingActive (gameState s)"
  "gameReleased (gameState (snd (translatorTurn e i s))) = gameReleased (gameState s)"
  "finalScore (gameState (snd (translatorTurn e i s))) = finalScore (gameState s)"
  "commandQueue (gameState (snd (translatorTurn e i s))) = commandQueue (gameState s)"
  by (simp_all add: translatorTurn_def Let_def)

lemma translatorTurn_core:
  "quantumCore (snd (translatorTurn e i s)) =
     quantumCore s @
     map (finishQuantum e (currentWeek (gameState s)) i) (enumerate 0 (matchedTemplates i))"
  by (simp add: translatorTurn_def Let_def)

lemma translatorTurn_flag:
  "fst (translatorTurn e i s) = (matchedTemplates i \<noteq> [])"
  by (simp add: translatorTurn_def Let_def)

lemma translatorTurn_grows:
  "fst (translatorTurn e i s) =
     (length (quantumCore s) < length (quantumCore (snd (translatorTurn e i s))))"
  by (simp add: translatorTurn_core translatorTurn_flag)

lemma markAnswered_find:
  "find (\<lambda>q. qid q = i) qs = Some q \<Longrightarrow>
   find (\<lambda>q. qid q = i) (markAnswered i qs) = Some (q\<lparr>qstatus := Answered\<rparr>)"
  by (induction qs) (auto split: if_splits)

lemma markAnswered_answered:
  "find (\<lambda>q. qid q = i) qs = Some q \<Longrightarrow> qstatus q = Answered \<Longrightarrow> markAnswered i qs = qs"
  by (induction qs) (auto split: if_splits)

lemma markAnswered_others:
  "filter (\<lambda>q. qid q \<noteq> i) (markAnswered i qs) = filter (\<lambda>q. qid q \<noteq> i) qs"
  by (induction qs) auto

lemma markAnswered_shape:
  "map (\<lambda>q. (qid q, qtext q, sourceQuantumId q)) (markAnswered i qs) =
   map (\<lambda>q. (qid q, qtext q, sourceQuantumId q)) qs"
  by (induction qs) auto

lemma resolveAnswer_found:
  assumes "answerMatch input = Some i"
    and "find (\<lambda>q. qid q = i) (unansweredQuestions s) = Some q"
  shows "fst (resolveAnswer e input s) = True"
    and "unansweredQuestions (snd (resolveAnswer e input s)) =
           markAnswered i (unansweredQuestions s)"
    and "quantumCore (snd (resolveAnswer e input s)) = quantumCore (snd (translatorTurn e input s))"
  using assms by (simp_all add: resolveAnswer_def Let_def translatorTurn_core)

lemma resolveAnswer_not_found:
  assumes "answerMatch input = None \<or>
           (answerMatch input = Some i \<and> find (\<lambda>q. qid q = i) (unansweredQuestions s) = None)"
  shows "resolveAnswer e input s = (False, snd (translatorTurn e input s))"
  using assms by (auto simp add: resolveAnswer_def)

lemma resolveAnswer_flag:
  "fst (resolveAnswer e input s) =
     (case answerMatch input of
        None \<Rightarrow> False
      | Some i \<Rightarrow> find (\<lambda>q. qid q = i) (unansweredQuestions s) \<noteq> None)"
  by (simp add: resolveAnswer_def Let_def split: option.splits)

lemma resolveAnswer_frame [simp]:
  "bugReports (snd (resolveAnswer e i s)) = bugReports s"
  "isWaitingForAgents (snd (resolveAnswer e i s)) = isWaitingForAgents s"
  "agentStatusText (snd (resolveAnswer e i s)) = agentStatusText s"
  "currentWeek (gameState (snd (resolveAnswer e i s))) = currentWeek (gameState s)"
  "designCompleteness (gameState (snd (resolveAnswer e i s))) = designCompleteness (gameState s)"
  "buildProgress (gameState (snd (resolveAnswer e i s))) = buildProgress (gameState s)"
  "bugs (gameState (snd (resolveAnswer e i s))) = bugs (gameState s)"
  "marketHype (gameState (snd (resolveAnswer e i s))) = marketHype (gameState s)"
  "marketingActive (gameState (snd (resolveAnswer e i s))) = marketingActive (gameState s)"
  "gameReleased (gameState (snd (resolveAnswer e i s))) = gameReleased (gameState s)"
  "finalScore (gameState (snd (resolveAnswer e i s))) = finalScore (gameState s)"
  "commandQueue (gameState (snd (resolveAnswer e i s))) = commandQueue (gameState s)"
  by (simp_all add: resolveAnswer_def Let_def split: option.splits)

lemma resolveAnswer_core:
  "quantumCore (snd (resolveAnswer e i s)) =
     quantumCore s @
     map (finishQuantum e (currentWeek (gameState s)) i) (enumerate 0 (matchedTemplates i))"
  by (simp add: resolveAnswer_def Let_def translatorTurn_core split: option.splits)

lemma ex_match: "answerMatch ''/answer uq-1 ghostwire'' = Some ''uq-1''"
  by (simp add: answerMatchAt_def startsWith_def isSpace_def isLowerAlnum_def)

lemma ex_templates: "matchedTemplates ''/answer uq-1 ghostwire'' =
   [(''Ability'', \<lparr>name = Some ''Ghostwire'', description = None\<rparr>)]"
  by (simp add: matchedTemplates_def translatorTemplates_def toLowerCase_def toLowerChar_def
      startsWith_def)

lemma ex_templates2: "matchedTemplates ''/answer uq-9 stealth'' =
   [(''MechanicPillar'', \<lparr>name = Some ''Stealth'', description = None\<rparr>)]"
  by (simp add: matchedTemplates_def translatorTemplates_def toLowerCase_def toLowerChar_def
      startsWith_def)

lemma ex_no_match: "answerMatch ''/answer later'' = None"
  by (simp add: answerMatchAt_def startsWith_def isSpace_def isLowerAlnum_def)

text \<open>
  Claim C5, as the code has it. When the extracted question id is in the ledger, whatever
  the status of the question, the first question with that id has status Answered
  afterwards, the other questions are untouched, the Translator runs on the full command
  text and success is reported. When no id can be extracted or the id is absent, the
  command is plain Translator behaviour and non-resolution is reported.
\<close>

theorem answer_resolution:
  "(answerMatch input = Some i \<and> find (\<lambda>q. qid q = i) (unansweredQuestions s) = Some q \<longrightarrow>
      fst (resolveAnswer e input s) = True
    \<and> find (\<lambda>q. qid q = i) (unansweredQuestions (snd (resolveAnswer e input s))) =
        Some (q\<lparr>qstatus := Answered\<rparr>)
    \<and> filter (\<lambda>q. qid q \<noteq> i) (unansweredQuestions (snd (resolveAnswer e input s))) =
        filter (\<lambda>q. qid q \<noteq> i) (unansweredQuestions s)
    \<and> quantumCore (snd (resolveAnswer e input s)) = quantumCore (snd (translatorTurn e input s)))
   \<and> (answerMatch input = None \<or>
      (answerMatch input = Some i \<and> find (\<lambda>q. qid q = i) (unansweredQuestions s) = None) \<longrightarrow>
      resolveAnswer e input s = (False, snd (translatorTurn e input s)))"
  using resolveAnswer_not_found[of input i s e]
  by (auto simp add: resolveAnswer_found markAnswered_find markAnswered_others)

theorem answer_resolution_witness:
  "(answerMatch ''/answer uq-1 ghostwire'' = Some ''uq-1'' \<and>
    find (\<lambda>q. qid q = ''uq-1'') (unansweredQuestions stateOneQuestion) = Some exampleQuestion \<and>
    qstatus exampleQuestion = Open \<and>
    fst (resolveAnswer exampleEnv ''/answer uq-1 ghostwire'' stateOneQuestion) = True \<and>
    find (\<lambda>q. qid q = ''uq-1'')
      (unansweredQuestions (snd (resolveAnswer exampleEnv ''/answer uq-1 ghostwire'' stateOneQuestion))) =
      Some (exampleQuestion\<lparr>qstatus := Answered\<rparr>)) \<and>
   (answerMatch ''/answer later'' = None \<and>
    resolveAnswer exampleEnv ''/answer later'' stateOneQuestion =
      (False, snd (translatorTurn exampleEnv ''/answer later'' stateOneQuestion)))"
  using answer_resolution[where input = "''/answer uq-1 ghostwire''" and i = "''uq-1''"
        and s = stateOneQuestion and q = exampleQuestion and e = exampleEnv]
    answer_resolution[where input = "''/answer later''" and i = "''uq-1''"
        and s = stateOneQuestion and q = exampleQuestion and e = exampleEnv]
    ex_match ex_no_match
  by (simp add: stateOneQuestion_def exampleQuestion_def del: answerMatch.simps)

text \<open>
  The claim as stated fails for a question that is already Answered: the command
  \<^verbatim>\<open>/answer uq-1 ghostwire\<close> on a ledger whose question \<^verbatim>\<open>uq-1\<close> is Answered
  reports success, and the Translator status line reads as for a resolution.
\<close>

theorem answered_question_reports_success:
  "answerMatch ''/answer uq-1 ghostwire'' = Some ''uq-1'' \<and>
   find (\<lambda>q. qid q = ''uq-1'') (unansweredQuestions stateAnswered) = Some answeredQuestion \<and>
   qstatus answeredQuestion = Answered \<and>
   fst (resolveAnswer exampleEnv ''/answer uq-1 ghostwire'' stateAnswered) = True \<and>
   translator (lastAgentActivity (gameState
     (snd (resolveAnswer exampleEnv ''/answer uq-1 ghostwire'' stateAnswered)))) =
     AnsweredQuestion ''uq-1''"
  by (simp add: ex_match resolveAnswer_def stateAnswered_def answeredQuestion_def
      exampleQuestion_def Let_def del: answerMatch.simps)

section \<open>Properties of a turn\<close>

lemma marketingEnd_frame [simp]:
  "quantumCore (marketingEnd s) = quantumCore s"
  "unansweredQuestions (marketingEnd s) = unansweredQuestions s"
  "bugReports (marketingEnd s) = bugReports s"
  "isWaitingForAgents (marketingEnd s) = isWaitingForAgents s"
  "agentStatusText (marketingEnd s) = agentStatusText s"
  "currentWeek (gameState (marketingEnd s)) = currentWeek (gameState s)"
  "designCompleteness (gameState (marketingEnd s)) = designCompleteness (gameState s)"
  "buildProgress (gameState (marketingEnd s)) = buildProgress (gameState s)"
  "bugs (gameState (marketingEnd s)) = bugs (gameState s)"
  "marketingActive (gameState (marketingEnd s)) = marketingActive (gameState s)"
  "gameReleased (gameState (marketingEnd s)) = gameReleased (gameState s)"
  "finalScore (gameState (marketingEnd s)) = finalScore (gameState s)"
  "commandQueue (gameState (marketingEnd s)) = commandQueue (gameState s)"
  by (simp_all add: marketingEnd_def Let_def)

lemma marketingEnd_hype:
  "marketHype (gameState (marketingEnd s)) =
     min 100 (marketHype (gameState s) + real (length (quantumCore s)) / 2)"
  by (simp add: marketingEnd_def Let_def)

lemma marketingResume_frame [simp]:
  "quantumCore (marketingResume e f s) = quantumCore s"
  "unansweredQuestions (marketingResume e f s) = unansweredQuestions s"
  "bugReports (marketingResume e f s) = bugReports s"
  "isWaitingForAgents (marketingResume e f s) = isWaitingForAgents s"
  "agentStatusText (marketingResume e f s) = agentStatusText s"
  "currentWeek (gameState (marketingResume e f s)) = currentWeek (gameState s)"
  "designCompleteness (gameState (marketingResume e f s)) = designCompleteness (gameState s)"
  "buildProgress (gameState (marketingResume e f s)) = buildProgress (gameState s)"
  "bugs (gameState (marketingResume e f s)) = bugs (gameState s)"
  "marketingActive (gameState (marketingResume e f s)) = marketingActive (gameState s)"
  "gameReleased (gameState (marketingResume e f s)) = gameReleased (gameState s)"
  "finalScore (gameState (marketingResume e f s)) = finalScore (gameState s)"
  "commandQueue (gameState (marketingResume e f s)) = commandQueue (gameState s)"
  by (simp_all add: marketingResume_def Let_def)

lemma marketingResume_hype:
  "marketHype (gameState (marketingResume e f s)) =
     min 100 (marketHype (gameState s) + real (length (quantumCore s)) / 2)"
  by (simp add: marketingResume_def Let_def marketingEnd_hype)

lemma marketingLaunch_frame [simp]:
  "quantumCore (fst (marketingLaunch e s)) = quantumCore s"
  "unansweredQuestions (fst (marketingLaunch e s)) = unansweredQuestions s"
  "bugReports (fst (marketingLaunch e s)) = bugReports s"
  "isWaitingForAgents (fst (marketingLaunch e s)) = isWaitingForAgents s"
  "agentStatusText (fst (marketingLaunch e s)) = agentStatusText s"
  "currentWeek (gameState (fst (marketingLaunch e s))) = currentWeek (gameState s)"
  "designCompleteness (gameState (fst (marketingLaunch e s))) = designCompleteness (gameState s)"
  "buildProgress (gameState (fst (marketingLaunch e s))) = buildProgress (gameState s)"
  "bugs (gameState (fst (marketingLaunch e s))) = bugs (gameState s)"
  "marketingActive (gameState (fst (marketingLaunch e s))) = marketingActive (gameState s)"
  "gameReleased (gameState (fst (marketingLaunch e s))) = gameReleased (gameState s)"
  "finalScore (gameState (fst (marketingLaunch e s))) = finalScore (gameState s)"
  "commandQueue (gameState (fst (marketingLaunch e s))) = commandQueue (gameState s)"
  by (simp_all add: marketingLaunch_def Let_def split: option.splits)

lemma marketingLaunch_hype:
  "marketHype (gameState (fst (marketingLaunch e s))) =
     (if marketingActive (gameState s) \<and> \<not> gameReleased (gameState s) \<and>
         find hypeable (recentQuanta s) = None
      then min 100 (marketHype (gameState s) + real (length (quantumCore s)) / 2)
      else marketHype (gameState s))"
  by (simp add: marketingLaunch_def marketingEnd_hype split: option.splits)

lemma marketingLaunch_task:
  "snd (marketingLaunch e s) =
     (if marketingActive (gameState s) \<and> \<not> gameReleased (gameState s)
      then find hypeable (recentQuanta s) else None)"
  by (simp add: marketingLaunch_def split: option.splits)

lemma producerLaunch_released:
  "gameReleased (gameState (fst (producerLaunch e s))) =
     (gameReleased (gameState s) \<or>
      (producerRuns s \<and> snd (producerLaunch e s) = None \<and>
       100 \<le> buildProgress (gameState s) + progressThisWeek (length (openQuestionsOf s))))"
  by (auto simp add: producerLaunch_def producerRuns_def Let_def producerEnd_released)

lemma producerLaunch_finalScore:
  "finalScore (gameState (fst (producerLaunch e s))) =
     (if producerRuns s \<and> snd (producerLaunch e s) = None \<and>
         100 \<le> buildProgress (gameState s) + progressThisWeek (length (openQuestionsOf s))
      then designCompleteness (gameState s) * 0.4 + marketHype (gameState s) * 0.3 +
           max 0 (100 - real (bugs (gameState s)) * 2) * 0.3
      else finalScore (gameState s))"
  by (auto simp add: producerLaunch_def producerRuns_def Let_def producerEnd_finalScore)

lemma producerResume_released:
  "gameReleased (gameState (producerResume e t s)) =
     (100 \<le> buildProgress (gameState s) \<or> gameReleased (gameState s))"
  by (simp add: producerResume_def Let_def producerEnd_released)

lemma producerResume_finalScore:
  "finalScore (gameState (producerResume e t s)) =
     (if 100 \<le> buildProgress (gameState s)
      then designCompleteness (gameState s) * 0.4 + marketHype (gameState s) * 0.3 +
           max 0 (100 - real (bugs (gameState (producerResume e t s))) * 2) * 0.3
      else finalScore (gameState s))"
  by (simp add: producerResume_def Let_def producerEnd_finalScore)

lemma setWaitingState_frame [simp]:
  "gameState (setWaitingState w t s) = gameState s"
  "quantumCore (setWaitingState w t s) = quantumCore s"
  "unansweredQuestions (setWaitingState w t s) = unansweredQuestions s"
  "bugReports (setWaitingState w t s) = bugReports s"
  "isWaitingForAgents (setWaitingState w t s) = w"
  "agentStatusText (setWaitingState w t s) = t"
  by (simp_all add: setWaitingState_def)

lemma endOfTurn_frame [simp]:
  "quantumCore (endOfTurn s) = quantumCore s"
  "unansweredQuestions (endOfTurn s) = unansweredQuestions s"
  "bugReports (endOfTurn s) = bugReports s"
  "isWaitingForAgents (endOfTurn s) = False"
  "buildProgress (gameState (endOfTurn s)) = buildProgress (gameState s)"
  "bugs (gameState (endOfTurn s)) = bugs (gameState s)"
  "marketHype (gameState (endOfTurn s)) = marketHype (gameState s)"
  "weeklySpend (gameState (endOfTurn s)) = weeklySpend (gameState s)"
  "budget (gameState (endOfTurn s)) = budget (gameState s)"
  "marketingActive (gameState (endOfTurn s)) = marketingActive (gameState s)"
  "gameReleased (gameState (endOfTurn s)) = gameReleased (gameState s)"
  "finalScore (gameState (endOfTurn s)) = finalScore (gameState s)"
  "commandQueue (gameState (endOfTurn s)) = commandQueue (gameState s)"
  "lastAgentActivity (gameState (endOfTurn s)) = lastAgentActivity (gameState s)"
  "projectName (gameState (endOfTurn s)) = projectName (gameState s)"
  by (simp_all add: endOfTurn_def Let_def)

lemma endOfTurn_week:
  "currentWeek (gameState (endOfTurn s)) = currentWeek (gameState s) + 1"
  by (simp add: endOfTurn_def Let_def)

lemma endOfTurn_completeness:
  "designCompleteness (gameState (endOfTurn s)) =
     completenessOf (length (quantumCore s)) (length (openQuestionsOf s))"
  by (simp add: endOfTurn_def Let_def openQuestionsOf_def)

lemma commandStep_frame [simp]:
  "bugReports (snd (commandStep e s)) = bugReports s"
  "isWaitingForAgents (snd (commandStep e s)) = isWaitingForAgents s"
  "agentStatusText (snd (commandStep e s)) = agentStatusText s"
  "currentWeek (gameState (snd (commandStep e s))) = currentWeek (gameState s)"
  "designCompleteness (gameState (snd (commandStep e s))) = designCompleteness (gameState s)"
  "buildProgress (gameState (snd (commandStep e s))) = buildProgress (gameState s)"
  "bugs (gameState (snd (commandStep e s))) = bugs (gameState s)"
  "marketHype (gameState (snd (commandStep e s))) = marketHype (gameState s)"
  "marketingActive (gameState (snd (commandStep e s))) = marketingActive (gameState s)"
  "gameReleased (gameState (snd (commandStep e s))) = gameReleased (gameState s)"
  "finalScore (gameState (snd (commandStep e s))) = finalScore (gameState s)"
  by (simp_all add: commandStep_def Let_def split: list.splits)

lemma openQuestionsOf_cong:
  "unansweredQuestions a = unansweredQuestions b \<Longrightarrow> openQuestionsOf a = openQuestionsOf b"
  by (simp add: openQuestionsOf_def)

lemma producerRuns_cong:
  "quantumCore a = quantumCore b \<Longrightarrow>
   gameReleased (gameState a) = gameReleased (gameState b) \<Longrightarrow> producerRuns a = producerRuns b"
  by (simp add: producerRuns_def)

lemma resumeAgent_frame [simp]:
  "quantumCore (resumeAgent e p a s) = quantumCore s"
  "isWaitingForAgents (resumeAgent e p a s) = isWaitingForAgents s"
  "agentStatusText (resumeAgent e p a s) = agentStatusText s"
  "currentWeek (gameState (resumeAgent e p a s)) = currentWeek (gameState s)"
  "designCompleteness (gameState (resumeAgent e p a s)) = designCompleteness (gameState s)"
  "buildProgress (gameState (resumeAgent e p a s)) = buildProgress (gameState s)"
  "marketingActive (gameState (resumeAgent e p a s)) = marketingActive (gameState s)"
  "commandQueue (gameState (resumeAgent e p a s)) = commandQueue (gameState s)"
  by (simp_all add: resumeAgent_def split: agent.splits option.splits)

lemma fold_resume_keeps:
  assumes "\<And>a m. f (resumeAgent e p a m) = f m"
  shows "f (fold (resumeAgent e p) as s) = f s"
  by (induction as arbitrary: s) (simp_all add: assms)

lemma awaitAgents_frame [simp]:
  "quantumCore (awaitAgents e p s) = quantumCore s"
  "isWaitingForAgents (awaitAgents e p s) = isWaitingForAgents s"
  "agentStatusText (awaitAgents e p s) = agentStatusText s"
  "currentWeek (gameState (awaitAgents e p s)) = currentWeek (gameState s)"
  "designCompleteness (gameState (awaitAgents e p s)) = designCompleteness (gameState s)"
  "buildProgress (gameState (awaitAgents e p s)) = buildProgress (gameState s)"
  "marketingActive (gameState (awaitAgents e p s)) = marketingActive (gameState s)"
  "commandQueue (gameState (awaitAgents e p s)) = commandQueue (gameState s)"
  unfolding awaitAgents_def
  by (rule fold_resume_keeps, simp)+

lemma awaitAgents_three:
  "awaitAgents e p s =
     (case agentsIn (completionOrder e) of
        [a, b, c] \<Rightarrow> resumeAgent e p c (resumeAgent e p b (resumeAgent e p a s))
      | _ \<Rightarrow> s)"
  by (cases "completionOrder e") (simp_all add: awaitAgents_def)

lemma awaitAgents_questions:
  "unansweredQuestions (awaitAgents e p s) =
     unansweredQuestions s @
     (case inquisitorTask p of None \<Rightarrow> [] | Some r \<Rightarrow> snd (inquisitorLoop e r [] []))"
  by (cases "completionOrder e")
     (simp_all add: awaitAgents_def resumeAgent_def inquisitorResume_questions
       split: option.splits)

lemma awaitAgents_bugs:
  "bugs (gameState (awaitAgents e p s)) =
     (case producerTask p of
        None \<Rightarrow> bugs (gameState s)
      | Some t \<Rightarrow>
          if startsWith (agentReply e Producer 0 (bugPrompt (fst t))) ''Fallback:''
          then bugs (gameState s) else bugs (gameState s) + 1)"
  by (cases "completionOrder e")
     (simp_all add: awaitAgents_def resumeAgent_def producerResume_bugs split: option.splits)

lemma awaitAgents_bugReports:
  "bugReports (awaitAgents e p s) =
     (case producerTask p of
        None \<Rightarrow> bugReports s
      | Some t \<Rightarrow>
          if startsWith (agentReply e Producer 0 (bugPrompt (fst t))) ''Fallback:''
          then bugReports s
          else bugReports s @
            [\<lparr> bugId = generateId e ''bug'' 0,
               bugText = agentReply e Producer 0 (bugPrompt (fst t)),
               week = currentWeek (gameState s), sourceQuestionId = qid (fst t) \<rparr>])"
  by (cases "completionOrder e")
     (simp_all add: awaitAgents_def resumeAgent_def producerResume_bugs split: option.splits)

lemma awaitAgents_hype:
  "marketHype (gameState (awaitAgents e p s)) =
     (case marketingTask p of None \<Rightarrow> marketHype (gameState s) | Some f \<Rightarrow> hypeGain s)"
  by (cases "completionOrder e")
     (simp_all add: awaitAgents_def resumeAgent_def marketingResume_hype hypeGain_def
       split: option.splits)

lemma awaitAgents_released:
  "gameReleased (gameState (awaitAgents e p s)) =
     (gameReleased (gameState s) \<or>
      (producerTask p \<noteq> None \<and> 100 \<le> buildProgress (gameState s)))"
  by (cases "completionOrder e")
     (auto simp add: awaitAgents_def resumeAgent_def producerResume_released
       split: option.splits)

lemma awaitAgents_finalScore:
  "finalScore (gameState (awaitAgents e p s)) =
     (if producerTask p \<noteq> None \<and> 100 \<le> buildProgress (gameState s)
      then scoreAt (designCompleteness (gameState s))
             (if marketingFirst (completionOrder e) \<and> marketingTask p \<noteq> None
              then hypeGain s else marketHype (gameState s))
             (bugs (gameState (awaitAgents e p s)))
      else finalScore (gameState s))"
  by (cases "completionOrder e")
     (auto simp add: awaitAgents_def resumeAgent_def producerResume_finalScore
       producerResume_bugs marketingResume_hype hypeGain_def scoreAt_def marketingFirst_def
       split: option.splits)

lemma activateMarketing_frame [simp]:
  "quantumCore (activateMarketing s) = quantumCore s"
  "unansweredQuestions (activateMarketing s) = unansweredQuestions s"
  "bugReports (activateMarketing s) = bugReports s"
  "isWaitingForAgents (activateMarketing s) = isWaitingForAgents s"
  "agentStatusText (activateMarketing s) = agentStatusText s"
  "currentWeek (gameState (activateMarketing s)) = currentWeek (gameState s)"
  "designCompleteness (gameState (activateMarketing s)) = designCompleteness (gameState s)"
  "buildProgress (gameState (activateMarketing s)) = buildProgress (gameState s)"
  "bugs (gameState (activateMarketing s)) = bugs (gameState s)"
  "marketHype (gameState (activateMarketing s)) = marketHype (gameState s)"
  "gameReleased (gameState (activateMarketing s)) = gameReleased (gameState s)"
  "finalScore (gameState (activateMarketing s)) = finalScore (gameState s)"
  "commandQueue (gameState (activateMarketing s)) = commandQueue (gameState s)"
  by (simp_all add: activateMarketing_def)

lemma recentQuanta_activateMarketing [simp]:
  "recentQuanta (activateMarketing s) = recentQuanta s"
  by (simp add: recentQuanta_def)

lemma launchAgents_alt:
  "launchAgents e b s =
     (let s1 = (if b then fst (inquisitorLaunch e s) else s);
          s2 = fst (producerLaunch e s1);
          s3 = activateMarketing s2
      in (fst (marketingLaunch e s3),
          \<lparr> inquisitorTask = (if b then snd (inquisitorLaunch e s) else None),
            producerTask = snd (producerLaunch e s1),
            marketingTask = snd (marketingLaunch e s3) \<rparr>))"
  by (simp add: launchAgents_def Let_def split_def)

lemma producerLaunch_task_cong:
  "quantumCore a = quantumCore b \<Longrightarrow>
   gameReleased (gameState a) = gameReleased (gameState b) \<Longrightarrow>
   unansweredQuestions a = unansweredQuestions b \<Longrightarrow>
   snd (producerLaunch e a) = snd (producerLaunch e b)"
  by (simp add: producerLaunch_task producerRuns_def openQuestionsOf_def)

lemma launchAgents_frame [simp]:
  "quantumCore (fst (launchAgents e b s)) = quantumCore s"
  "unansweredQuestions (fst (launchAgents e b s)) = unansweredQuestions s"
  "bugReports (fst (launchAgents e b s)) = bugReports s"
  "isWaitingForAgents (fst (launchAgents e b s)) = isWaitingForAgents s"
  "agentStatusText (fst (launchAgents e b s)) = agentStatusText s"
  "currentWeek (gameState (fst (launchAgents e b s))) = currentWeek (gameState s)"
  "designCompleteness (gameState (fst (launchAgents e b s))) = designCompleteness (gameState s)"
  "bugs (gameState (fst (launchAgents e b s))) = bugs (gameState s)"
  "commandQueue (gameState (fst (launchAgents e b s))) = commandQueue (gameState s)"
  by (simp_all add: launchAgents_alt Let_def)

lemma launchAgents_tasks:
  "inquisitorTask (snd (launchAgents e b s)) = (if b then snd (inquisitorLaunch e s) else None)"
  "producerTask (snd (launchAgents e b s)) = snd (producerLaunch e s)"
  by (simp_all add: launchAgents_alt Let_def producerLaunch_task_cong[of "fst (inquisitorLaunch e s)" s])

lemma launchAgents_progress:
  "buildProgress (gameState (fst (launchAgents e b s))) =
     (if producerRuns s
      then min 100 (buildProgress (gameState s) + progressThisWeek (length (openQuestionsOf s)))
      else buildProgress (gameState s))"
  by (simp add: launchAgents_alt Let_def producerLaunch_progress producerRuns_def
      openQuestionsOf_def)

lemma launchAgents_released:
  "gameReleased (gameState (fst (launchAgents e b s))) =
     (gameReleased (gameState s) \<or>
      (producerRuns s \<and> snd (producerLaunch e s) = None \<and>
       100 \<le> buildProgress (gameState s) + progressThisWeek (length (openQuestionsOf s))))"
  by (simp add: launchAgents_alt Let_def producerLaunch_released producerRuns_def
      openQuestionsOf_def producerLaunch_task_cong[of "fst (inquisitorLaunch e s)" s])

lemma launchAgents_finalScore:
  "finalScore (gameState (fst (launchAgents e b s))) =
     (if producerRuns s \<and> snd (producerLaunch e s) = None \<and>
         100 \<le> buildProgress (gameState s) + progressThisWeek (length (openQuestionsOf s))
      then scoreAt (designCompleteness (gameState s)) (marketHype (gameState s))
             (bugs (gameState s))
      else finalScore (gameState s))"
  by (auto simp add: launchAgents_alt Let_def producerLaunch_finalScore producerRuns_def
      openQuestionsOf_def scoreAt_def producerLaunch_task_cong[of "fst (inquisitorLaunch e s)" s])

lemma launchAgents_hype:
  "marketHype (gameState (fst (launchAgents e b s))) = marketHype (gameState s) \<or>
   (marketHype (gameState (fst (launchAgents e b s))) = hypeGain s \<and>
    marketingTask (snd (launchAgents e b s)) = None \<and>
    \<not> gameReleased (gameState (fst (launchAgents e b s))))"
  by (simp add: launchAgents_alt Let_def marketingLaunch_hype marketingLaunch_task hypeGain_def)

lemma launchAgents_marketing_released:
  "gameReleased (gameState (fst (launchAgents e b s))) \<Longrightarrow>
   marketingTask (snd (launchAgents e b s)) = None \<and>
   marketHype (gameState (fst (launchAgents e b s))) = marketHype (gameState s)"
  by (simp add: launchAgents_alt Let_def marketingLaunch_hype marketingLaunch_task)

lemma advanceWeek_runs:
  assumes "\<not> gameReleased (gameState s)" and "\<not> isWaitingForAgents s"
  shows "advanceWeek e s =
           endOfTurn
             (awaitAgents e
                (snd (launchAgents e (fst (commandStep e s))
                        (setWaitingState True ''Agents are thinking...'' (snd (commandStep e s)))))
                (fst (launchAgents e (fst (commandStep e s))
                        (setWaitingState True ''Agents are thinking...'' (snd (commandStep e s))))))"
  using assms by (simp add: advanceWeek_def Let_def split_def)

lemma advanceWeek_idle:
  "gameReleased (gameState s) \<or> isWaitingForAgents s \<Longrightarrow> advanceWeek e s = s"
  by (simp add: advanceWeek_def)

lemma progressThisWeek_pos: "0 < progressThisWeek n"
  by (simp add: progressThisWeek_def)

lemma recentQuanta_setWaitingState [simp]:
  "recentQuanta (setWaitingState w t s) = recentQuanta s"
  by (simp add: recentQuanta_def)

lemma openQuestionsOf_setWaitingState [simp]:
  "openQuestionsOf (setWaitingState w t s) = openQuestionsOf s"
  by (simp add: openQuestionsOf_def)

lemma producerRuns_setWaitingState [simp]:
  "producerRuns (setWaitingState w t s) = producerRuns s"
  by (simp add: producerRuns_def)

lemma producerLaunch_task_setWaitingState [simp]:
  "snd (producerLaunch e (setWaitingState w t s)) = snd (producerLaunch e s)"
  by (simp add: producerLaunch_task)

lemma hypeGain_setWaitingState [simp]:
  "hypeGain (setWaitingState w t s) = hypeGain s"
  by (simp add: hypeGain_def)

lemma producerLaunch_task_runs:
  "snd (producerLaunch e s) \<noteq> None \<Longrightarrow> producerRuns s"
  by (simp add: producerLaunch_task split: if_splits)

lemma advanceWeek_core:
  assumes "\<not> gameReleased (gameState s)" and "\<not> isWaitingForAgents s"
  shows "quantumCore (advanceWeek e s) = quantumCore (snd (commandStep e s))"
  by (simp add: advanceWeek_runs[OF assms])

lemma advanceWeek_questions:
  assumes "\<not> gameReleased (gameState s)" and "\<not> isWaitingForAgents s"
  shows "unansweredQuestions (advanceWeek e s) =
           unansweredQuestions (snd (commandStep e s)) @
           (if fst (commandStep e s)
            then snd (inquisitorLoop e (recentQuanta (snd (commandStep e s))) [] [])
            else [])"
  by (simp add: advanceWeek_runs[OF assms] awaitAgents_questions launchAgents_tasks
      inquisitorLaunch_task inquisitorLoop_none_asked)

lemma advanceWeek_bugReports:
  assumes "\<not> gameReleased (gameState s)" and "\<not> isWaitingForAgents s"
  shows "bugReports (advanceWeek e s) = bugReports s \<or>
         (\<exists>r. bugReports (advanceWeek e s) = bugReports s @ [r])"
  by (simp add: advanceWeek_runs[OF assms] awaitAgents_bugReports split: option.splits)

lemma advanceWeek_week:
  assumes "\<not> gameReleased (gameState s)" and "\<not> isWaitingForAgents s"
  shows "currentWeek (gameState (advanceWeek e s)) = currentWeek (gameState s) + 1"
  by (simp add: advanceWeek_runs[OF assms] endOfTurn_week)

lemma advanceWeek_completeness:
  assumes "\<not> gameReleased (gameState s)" and "\<not> isWaitingForAgents s"
  shows "designCompleteness (gameState (advanceWeek e s)) =
           completenessOf (length (quantumCore (advanceWeek e s)))
             (length (openQuestionsOf (advanceWeek e s)))"
  by (simp add: advanceWeek_runs[OF assms] endOfTurn_completeness
      openQuestionsOf_cong[of "endOfTurn x" x for x])

lemma advanceWeek_progress:
  assumes "\<not> gameReleased (gameState s)" and "\<not> isWaitingForAgents s"
  shows "buildProgress (gameState (advanceWeek e s)) =
           (if producerRuns (snd (commandStep e s))
            then min 100 (buildProgress (gameState s) +
                   progressThisWeek (length (openQuestionsOf (snd (commandStep e s)))))
            else buildProgress (gameState s))"
  by (simp add: advanceWeek_runs[OF assms] launchAgents_progress)

lemma advanceWeek_bugs:
  assumes "\<not> gameReleased (gameState s)" and "\<not> isWaitingForAgents s"
  shows "bugs (gameState (advanceWeek e s)) = bugs (gameState s) \<or>
         bugs (gameState (advanceWeek e s)) = bugs (gameState s) + 1"
  by (simp add: advanceWeek_runs[OF assms] awaitAgents_bugs split: option.splits)

lemma advanceWeek_hype:
  assumes "\<not> gameReleased (gameState s)" and "\<not> isWaitingForAgents s"
  shows "marketHype (gameState (advanceWeek e s)) = marketHype (gameState s) \<or>
         marketHype (gameState (advanceWeek e s)) =
           min 100 (marketHype (gameState s) +
                    real (length (quantumCore (snd (commandStep e s)))) / 2)"
  using launchAgents_hype[of e "fst (commandStep e s)"
          "setWaitingState True ''Agents are thinking...'' (snd (commandStep e s))"]
  by (auto simp add: advanceWeek_runs[OF assms] awaitAgents_hype hypeGain_def
      split: option.splits)

lemma advanceWeek_released:
  assumes "\<not> gameReleased (gameState s)" and "\<not> isWaitingForAgents s"
  shows "gameReleased (gameState (advanceWeek e s)) =
           (producerRuns (snd (commandStep e s)) \<and>
            100 \<le> buildProgress (gameState s) +
                     progressThisWeek (length (openQuestionsOf (snd (commandStep e s)))))"
proof (cases "snd (producerLaunch e (snd (commandStep e s)))")
  case None
  then show ?thesis
    using assms(1)
    by (simp add: advanceWeek_runs[OF assms] awaitAgents_released launchAgents_released
        launchAgents_tasks)
next
  case (Some t)
  then have "producerRuns (snd (commandStep e s))"
    using producerLaunch_task_runs[of e "snd (commandStep e s)"] by simp
  then show ?thesis
    using assms(1) Some
    by (simp add: advanceWeek_runs[OF assms] awaitAgents_released launchAgents_released
        launchAgents_tasks launchAgents_progress)
qed

lemma advanceWeek_finalScore:
  assumes run: "\<not> gameReleased (gameState s)" "\<not> isWaitingForAgents s"
    and rel: "gameReleased (gameState (advanceWeek e s))"
  shows "finalScore (gameState (advanceWeek e s)) =
           scoreAt (designCompleteness (gameState s)) (marketHype (gameState s))
             (bugs (gameState (advanceWeek e s))) \<or>
         finalScore (gameState (advanceWeek e s)) =
           scoreAt (designCompleteness (gameState s)) (marketHype (gameState (advanceWeek e s)))
             (bugs (gameState (advanceWeek e s)))"
proof -
  define c where "c = snd (commandStep e s)"
  define m0 where "m0 = setWaitingState True ''Agents are thinking...'' c"
  define m where "m = fst (launchAgents e (fst (commandStep e s)) m0)"
  define p where "p = snd (launchAgents e (fst (commandStep e s)) m0)"
  have final: "advanceWeek e s = endOfTurn (awaitAgents e p m)"
    by (simp add: advanceWeek_runs[OF run] c_def m0_def m_def p_def)
  have fire: "producerRuns c"
    "100 \<le> buildProgress (gameState s) + progressThisWeek (length (openQuestionsOf c))"
    using rel by (simp_all add: advanceWeek_released[OF run] c_def)
  have ptask: "producerTask p = snd (producerLaunch e c)"
    by (simp add: p_def m0_def launchAgents_tasks)
  have dc: "designCompleteness (gameState m) = designCompleteness (gameState s)"
    by (simp add: m_def m0_def c_def)
  have bp: "100 \<le> buildProgress (gameState m)"
    using fire by (simp add: m_def m0_def launchAgents_progress c_def)
  have hype0: "marketHype (gameState m0) = marketHype (gameState s)"
    by (simp add: m0_def c_def)
  show ?thesis
  proof (cases "snd (producerLaunch e c)")
    case None
    have "finalScore (gameState (awaitAgents e p m)) = finalScore (gameState m)"
      using None ptask by (simp add: awaitAgents_finalScore)
    moreover have "finalScore (gameState m) =
        scoreAt (designCompleteness (gameState s)) (marketHype (gameState s)) (bugs (gameState s))"
      using None fire by (simp add: m_def m0_def launchAgents_finalScore c_def)
    moreover have "bugs (gameState (awaitAgents e p m)) = bugs (gameState s)"
      using None ptask by (simp add: awaitAgents_bugs m_def m0_def c_def)
    ultimately show ?thesis by (simp add: final)
  next
    case (Some t)
    have fs: "finalScore (gameState (awaitAgents e p m)) =
        scoreAt (designCompleteness (gameState s))
          (if marketingFirst (completionOrder e) \<and> marketingTask p \<noteq> None
           then hypeGain m else marketHype (gameState m))
          (bugs (gameState (awaitAgents e p m)))"
      using Some ptask bp by (simp add: awaitAgents_finalScore dc)
    show ?thesis
    proof (cases "marketingTask p")
      case None
      have "marketHype (gameState (awaitAgents e p m)) = marketHype (gameState m)"
        using None by (simp add: awaitAgents_hype)
      then show ?thesis using fs None by (simp add: final)
    next
      case (Some f)
      have later: "marketHype (gameState (awaitAgents e p m)) = hypeGain m"
        using Some by (simp add: awaitAgents_hype)
      have "marketHype (gameState m) = marketHype (gameState s)"
        using launchAgents_hype[of e "fst (commandStep e s)" m0] Some hype0
        by (auto simp add: m_def p_def)
      then show ?thesis using fs later by (auto simp add: final)
    qed
  qed
qed

lemma submitCommand_frame [simp]:
  "quantumCore (submitCommand r c s) = quantumCore s"
  "unansweredQuestions (submitCommand r c s) = unansweredQuestions s"
  "bugReports (submitCommand r c s) = bugReports s"
  "isWaitingForAgents (submitCommand r c s) = isWaitingForAgents s"
  "agentStatusText (submitCommand r c s) = agentStatusText s"
  "currentWeek (gameState (submitCommand r c s)) = currentWeek (gameState s)"
  "designCompleteness (gameState (submitCommand r c s)) = designCompleteness (gameState s)"
  "buildProgress (gameState (submitCommand r c s)) = buildProgress (gameState s)"
  "bugs (gameState (submitCommand r c s)) = bugs (gameState s)"
  "marketHype (gameState (submitCommand r c s)) = marketHype (gameState s)"
  "marketingActive (gameState (submitCommand r c s)) = marketingActive (gameState s)"
  "gameReleased (gameState (submitCommand r c s)) = gameReleased (gameState s)"
  "finalScore (gameState (submitCommand r c s)) = finalScore (gameState s)"
  by (simp_all add: submitCommand_def Let_def)

lemma turnInvariant_advanceWeek:
  assumes "turnInvariant s"
  shows "turnInvariant (advanceWeek e s)"
proof (cases "gameReleased (gameState s)")
  case True
  then show ?thesis using assms by (simp add: advanceWeek_idle)
next
  case False
  have run: "\<not> gameReleased (gameState s)" "\<not> isWaitingForAgents s"
    using False assms by (simp_all add: turnInvariant_def)
  have "buildProgress (gameState (advanceWeek e s)) \<le> 100"
    using assms by (simp add: advanceWeek_progress[OF run] turnInvariant_def)
  moreover have "marketHype (gameState (advanceWeek e s)) \<le> 100"
    using assms advanceWeek_hype[OF run, of e] by (auto simp add: turnInvariant_def)
  moreover have "\<not> isWaitingForAgents (advanceWeek e s)"
    by (simp add: advanceWeek_runs[OF run])
  moreover have "100 \<le> buildProgress (gameState (advanceWeek e s)) \<longrightarrow>
      gameReleased (gameState (advanceWeek e s))"
    using assms run
    by (auto simp add: advanceWeek_progress[OF run] advanceWeek_released[OF run]
        turnInvariant_def split: if_splits)
  ultimately show ?thesis by (simp add: turnInvariant_def)
qed

lemma reachable_invariant: "reachable s \<Longrightarrow> turnInvariant s"
proof (induction rule: reachable.induct)
  case start
  show ?case by (simp add: turnInvariant_def initialState_def)
next
  case (turn s e)
  then show ?case by (simp add: turnInvariant_advanceWeek)
next
  case (submit s r c)
  then show ?case by (simp add: turnInvariant_def)
qed

lemma initial_templates:
  "matchedTemplates defaultCommand =
   [(''Genre'', \<lparr>name = Some ''Action RPG'', description = None\<rparr>),
    (''MechanicPillar'', \<lparr>name = Some ''Stealth'', description = None\<rparr>),
    (''Setting'', \<lparr>name = Some ''Cyberpunk Fantasy'', description = None\<rparr>)]"
  by code_simp

lemma default_not_answer: "\<not> startsWith (toLowerCase defaultCommand) ''/answer''"
  by code_simp

lemma reply_accepted: "acceptedQuestion ''How is the player detected?''"
  by (simp add: acceptedQuestion_def startsWith_def)

lemma fallback_rejected: "\<not> acceptedQuestion ''Fallback: The agent is offline.''"
  by (simp add: acceptedQuestion_def startsWith_def)

lemma initial_command:
  "commandStep e initialState =
     translatorTurn e defaultCommand
       (initialState\<lparr>gameState := (gameState initialState)\<lparr>commandQueue := []\<rparr>\<rparr>)"
  by (simp add: commandStep_def initialState_def startsWith_def trim_def isSpace_def
      defaultCommand_def)

lemma initial_core:
  "quantumCore (snd (commandStep e initialState)) =
     map (finishQuantum e 1 defaultCommand)
       (enumerate 0
         [(''Genre'', \<lparr>name = Some ''Action RPG'', description = None\<rparr>),
          (''MechanicPillar'', \<lparr>name = Some ''Stealth'', description = None\<rparr>),
          (''Setting'', \<lparr>name = Some ''Cyberpunk Fantasy'', description = None\<rparr>)])"
  by (simp add: initial_command translatorTurn_core initial_templates) (simp add: initialState_def)

lemma initial_recent:
  "recentQuanta (snd (commandStep e initialState)) = quantumCore (snd (commandStep e initialState))"
  by (simp add: recentQuanta_def initial_core finishQuantum_def)
     (simp add: initial_command initialState_def)

lemma initial_ledger: "unansweredQuestions (snd (commandStep e initialState)) = []"
  by (simp add: initial_command) (simp add: initialState_def)

lemma initial_flag: "fst (commandStep e initialState)"
  by (simp add: initial_command translatorTurn_flag initial_templates)

lemma initial_questions_one:
  "map (\<lambda>x. (qtext x, qstatus x))
     (snd (inquisitorLoop oneQuestionEnv
        (quantumCore (snd (commandStep oneQuestionEnv initialState))) [] [])) =
     [(''How is the player detected?'', Open)]"
  by (simp add: initial_core finishQuantum_def fromAnswer_def default_not_answer
      reply_accepted fallback_rejected oneQuestionEnv_def Let_def)

text \<open>
  Claim C8. At the end of a turn that is processed, \<open>designCompleteness\<close> is
  \<open>quanta / (quanta + openQuestions) * 100\<close> on the quantum core and the open questions
  of the resulting state when that denominator is positive, else 100 if quanta exist,
  else 0; with 3 quanta and 1 open question it is 75, with neither quanta nor open
  questions it is 0.
\<close>

theorem design_completeness_recomputed:
  assumes "\<not> gameReleased (gameState s)" and "\<not> isWaitingForAgents s"
  shows "designCompleteness (gameState (advanceWeek e s)) =
           (if 0 < length (quantumCore (advanceWeek e s)) + length (openQuestionsOf (advanceWeek e s))
            then real (length (quantumCore (advanceWeek e s))) /
                 real (length (quantumCore (advanceWeek e s)) +
                       length (openQuestionsOf (advanceWeek e s))) * 100
            else if 0 < length (quantumCore (advanceWeek e s)) then 100 else 0)
       \<and> (length (quantumCore (advanceWeek e s)) = 3 \<and>
          length (openQuestionsOf (advanceWeek e s)) = 1 \<longrightarrow>
          designCompleteness (gameState (advanceWeek e s)) = 75)
       \<and> (length (quantumCore (advanceWeek e s)) = 0 \<and>
          length (openQuestionsOf (advanceWeek e s)) = 0 \<longrightarrow>
          designCompleteness (gameState (advanceWeek e s)) = 0)"
  by (simp add: advanceWeek_completeness[OF assms] completenessOf_def Let_def)

theorem design_completeness_recomputed_witness:
  "(\<not> gameReleased (gameState initialState) \<and> \<not> isWaitingForAgents initialState \<and>
    length (quantumCore (advanceWeek oneQuestionEnv initialState)) = 3 \<and>
    length (openQuestionsOf (advanceWeek oneQuestionEnv initialState)) = 1 \<and>
    designCompleteness (gameState (advanceWeek oneQuestionEnv initialState)) = 75) \<and>
   (\<not> gameReleased (gameState stateEmptyQueue) \<and> \<not> isWaitingForAgents stateEmptyQueue \<and>
    length (quantumCore (advanceWeek offlineEnv stateEmptyQueue)) = 0 \<and>
    length (openQuestionsOf (advanceWeek offlineEnv stateEmptyQueue)) = 0 \<and>
    designCompleteness (gameState (advanceWeek offlineEnv stateEmptyQueue)) = 0)"
proof -
  have i: "\<not> gameReleased (gameState initialState)" "\<not> isWaitingForAgents initialState"
    by (simp_all add: initialState_def)
  have q: "\<not> gameReleased (gameState stateEmptyQueue)" "\<not> isWaitingForAgents stateEmptyQueue"
    by (simp_all add: stateEmptyQueue_def initialState_def)
  have c3: "length (quantumCore (advanceWeek oneQuestionEnv initialState)) = 3"
    by (simp add: advanceWeek_core[OF i] initial_core)
  have "map qstatus (snd (inquisitorLoop oneQuestionEnv
          (quantumCore (snd (commandStep oneQuestionEnv initialState))) [] [])) = [Open]"
    using arg_cong[OF initial_questions_one, of "map snd"] by (simp add: comp_def)
  then have "map qstatus (unansweredQuestions (advanceWeek oneQuestionEnv initialState)) = [Open]"
    by (simp add: advanceWeek_questions[OF i] initial_flag initial_recent initial_ledger)
  then have o1: "length (openQuestionsOf (advanceWeek oneQuestionEnv initialState)) = 1"
    by (auto simp add: openQuestionsOf_def map_eq_Cons_conv)
  have e0: "commandStep offlineEnv stateEmptyQueue = (False, stateEmptyQueue)"
    by (simp add: commandStep_def stateEmptyQueue_def)
  have c0: "length (quantumCore (advanceWeek offlineEnv stateEmptyQueue)) = 0"
    by (simp add: advanceWeek_core[OF q] e0) (simp add: stateEmptyQueue_def initialState_def)
  have o0: "length (openQuestionsOf (advanceWeek offlineEnv stateEmptyQueue)) = 0"
    by (simp add: openQuestionsOf_def advanceWeek_questions[OF q] e0)
       (simp add: stateEmptyQueue_def initialState_def)
  show ?thesis
    using design_completeness_recomputed[OF i, of oneQuestionEnv] design_completeness_recomputed[OF q, of offlineEnv] i q c3 o1 c0 o0
    by simp
qed

subsection \<open>Monotonicity, release and the remainder of the turn\<close>

text \<open>
  Claim C4. In every state of a page session, a turn-advance request lowers none of
  \<open>buildProgress\<close>, \<open>marketHype\<close> and \<open>bugs\<close>, and a turn that is processed (the game
  is not released) raises \<open>currentWeek\<close> by exactly 1.
\<close>

theorem turn_monotone:
  assumes "reachable s"
  shows "buildProgress (gameState s) \<le> buildProgress (gameState (advanceWeek e s))
       \<and> marketHype (gameState s) \<le> marketHype (gameState (advanceWeek e s))
       \<and> bugs (gameState s) \<le> bugs (gameState (advanceWeek e s))
       \<and> (\<not> gameReleased (gameState s) \<longrightarrow>
            currentWeek (gameState (advanceWeek e s)) = currentWeek (gameState s) + 1)"
proof (cases "gameReleased (gameState s)")
  case True
  then show ?thesis by (simp add: advanceWeek_idle)
next
  case False
  have inv: "turnInvariant s" using assms by (rule reachable_invariant)
  have run: "\<not> gameReleased (gameState s)" "\<not> isWaitingForAgents s"
    using False inv by (simp_all add: turnInvariant_def)
  have "buildProgress (gameState s) \<le> buildProgress (gameState (advanceWeek e s))"
    using inv progressThisWeek_pos[of "length (openQuestionsOf (snd (commandStep e s)))"]
    by (simp add: advanceWeek_progress[OF run] turnInvariant_def)
  moreover have "marketHype (gameState s) \<le> marketHype (gameState (advanceWeek e s))"
    using inv advanceWeek_hype[OF run, of e] by (auto simp add: turnInvariant_def)
  moreover have "bugs (gameState s) \<le> bugs (gameState (advanceWeek e s))"
    using advanceWeek_bugs[OF run, of e] by auto
  ultimately show ?thesis by (simp add: advanceWeek_week[OF run])
qed

theorem turn_monotone_witness:
  "reachable initialState \<and> \<not> gameReleased (gameState initialState) \<and>
   buildProgress (gameState initialState) \<le>
     buildProgress (gameState (advanceWeek exampleEnv initialState)) \<and>
   marketHype (gameState initialState) \<le>
     marketHype (gameState (advanceWeek exampleEnv initialState)) \<and>
   bugs (gameState initialState) \<le> bugs (gameState (advanceWeek exampleEnv initialState)) \<and>
   currentWeek (gameState (advanceWeek exampleEnv initialState)) = 2"
  using turn_monotone[OF reachable.start, of exampleEnv]
  by (simp add: reachable.start) (simp add: initialState_def)

lemma producerTurn_release:
  assumes "quantumCore m \<noteq> []" and "\<not> gameReleased (gameState m)"
    and "100 \<le> buildProgress (gameState (producerTurn e m))"
  shows "gameReleased (gameState (producerTurn e m))"
    and "finalScore (gameState (producerTurn e m)) =
           designCompleteness (gameState (producerTurn e m)) * 0.4 +
           marketHype (gameState (producerTurn e m)) * 0.3 +
           max 0 (100 - real (bugs (gameState (producerTurn e m))) * 2) * 0.3"
  using assms
  by (auto simp add: producerTurn_alt producerLaunch_progress producerLaunch_released
      producerLaunch_finalScore producerResume_released producerResume_finalScore
      producerRuns_def split: option.splits)

lemma advanceWeek_producer_ran:
  assumes "\<not> gameReleased (gameState s)" and "\<not> isWaitingForAgents s"
    and "quantumCore (advanceWeek e s) \<noteq> []"
  shows "producerRuns (snd (commandStep e s))"
  using assms by (simp add: advanceWeek_core producerRuns_def)

lemma near_alone:
  "buildProgress (gameState (producerTurn e stateNearRelease)) = 100"
  by (simp add: producerTurn_alt producerLaunch_task producerLaunch_progress producerRuns_def
      openQuestionsOf_def progressThisWeek_def)
     (simp add: stateNearRelease_def initialState_def)

lemma advanceWeek_bugs_exact:
  assumes "\<not> gameReleased (gameState s)" and "\<not> isWaitingForAgents s"
  shows "bugs (gameState (advanceWeek e s)) =
           (case snd (producerLaunch e (snd (commandStep e s))) of
              None \<Rightarrow> bugs (gameState s)
            | Some t \<Rightarrow>
                if startsWith (agentReply e Producer 0 (bugPrompt (fst t))) ''Fallback:''
                then bugs (gameState s) else bugs (gameState s) + 1)"
  by (simp add: advanceWeek_runs[OF assms] awaitAgents_bugs launchAgents_tasks
      split: option.splits)

lemma advanceWeek_hype_released_at_launch:
  assumes "\<not> gameReleased (gameState s)" and "\<not> isWaitingForAgents s"
    and "producerRuns (snd (commandStep e s))"
    and "snd (producerLaunch e (snd (commandStep e s))) = None"
    and "100 \<le> buildProgress (gameState s) +
                progressThisWeek (length (openQuestionsOf (snd (commandStep e s))))"
  shows "marketHype (gameState (advanceWeek e s)) = marketHype (gameState s)"
proof -
  define m0 where "m0 = setWaitingState True ''Agents are thinking...'' (snd (commandStep e s))"
  have "gameReleased (gameState (fst (launchAgents e (fst (commandStep e s)) m0)))"
    using assms(3-5) by (simp add: launchAgents_released m0_def)
  then have "marketingTask (snd (launchAgents e (fst (commandStep e s)) m0)) = None \<and>
     marketHype (gameState (fst (launchAgents e (fst (commandStep e s)) m0))) =
       marketHype (gameState m0)"
    by (rule launchAgents_marketing_released)
  then show ?thesis
    by (simp add: advanceWeek_runs[OF assms(1,2)] awaitAgents_hype m0_def[symmetric])
       (simp add: m0_def)
qed

lemma near_templates:
  "matchedTemplates ''/declare ghostwire'' =
     [(''Ability'', \<lparr>name = Some ''Ghostwire'', description = None\<rparr>)]"
  by code_simp

lemma near_not_answer: "\<not> startsWith (toLowerCase ''/declare ghostwire'') ''/answer''"
  by code_simp

lemma week20: "weekString 20 = ''Week 20''"
  by code_simp

lemma near_command:
  "commandStep e stateNearRelease =
     translatorTurn e ''/declare ghostwire''
       (stateNearRelease\<lparr>gameState := (gameState stateNearRelease)\<lparr>commandQueue := []\<rparr>\<rparr>)"
  by (simp add: commandStep_def stateNearRelease_def initialState_def startsWith_def trim_def
      isSpace_def)

lemma near_run:
  "\<not> gameReleased (gameState stateNearRelease)" "\<not> isWaitingForAgents stateNearRelease"
  by (simp_all add: stateNearRelease_def initialState_def)

lemma near_core:
  "quantumCore (snd (commandStep e stateNearRelease)) =
     [exampleQuantum,
      finishQuantum e 20 ''/declare ghostwire''
        (0, ''Ability'', \<lparr>name = Some ''Ghostwire'', description = None\<rparr>)]"
  by (simp add: near_command translatorTurn_core near_templates)
     (simp add: stateNearRelease_def initialState_def)

lemma near_ledger: "unansweredQuestions (snd (commandStep e stateNearRelease)) = []"
  by (simp add: near_command) (simp add: stateNearRelease_def initialState_def)

lemma near_flag: "fst (commandStep e stateNearRelease)"
  by (simp add: near_command translatorTurn_flag near_templates)

lemma near_fields:
  "buildProgress (gameState stateNearRelease) = 95"
  "designCompleteness (gameState stateNearRelease) = 100"
  "marketHype (gameState stateNearRelease) = 0"
  "bugs (gameState stateNearRelease) = 0"
  "currentWeek (gameState stateNearRelease) = 20"
  by (simp_all add: stateNearRelease_def initialState_def)

lemma near_producer:
  "producerRuns (snd (commandStep e stateNearRelease))"
  "openQuestionsOf (snd (commandStep e stateNearRelease)) = []"
  "snd (producerLaunch e (snd (commandStep e stateNearRelease))) = None"
  by (simp_all add: producerRuns_def near_core near_run openQuestionsOf_def near_ledger
      producerLaunch_task)

lemma near_recent:
  "recentQuanta (snd (commandStep e stateNearRelease)) =
     [finishQuantum e 20 ''/declare ghostwire''
        (0, ''Ability'', \<lparr>name = Some ''Ghostwire'', description = None\<rparr>)]"
  by (simp add: recentQuanta_def near_core near_fields week20 exampleQuantum_def
      finishQuantum_def)

lemma endOfTurn_shape:
  "endOfTurn m =
     m\<lparr> isWaitingForAgents := False,
        agentStatusText := agentStatusText (endOfTurn m),
        gameState := (gameState m)
          \<lparr> currentWeek := currentWeek (gameState (endOfTurn m)),
            designCompleteness := designCompleteness (gameState (endOfTurn m)) \<rparr> \<rparr>"
  by (simp add: endOfTurn_def setWaitingState_def Let_def)

lemma inquisitorResume_shape:
  "inquisitorResume e r m =
     m\<lparr> unansweredQuestions := unansweredQuestions (inquisitorResume e r m),
        gameState := (gameState m)
          \<lparr> lastAgentActivity := lastAgentActivity (gameState (inquisitorResume e r m)) \<rparr> \<rparr>"
  by (simp add: inquisitorResume_def Let_def)

lemma marketingResume_shape:
  "marketingResume e f m =
     m\<lparr> gameState := (gameState m)
          \<lparr> marketHype := marketHype (gameState (marketingResume e f m)),
            weeklySpend := weeklySpend (gameState (marketingResume e f m)),
            lastAgentActivity := lastAgentActivity (gameState (marketingResume e f m)) \<rparr> \<rparr>"
  by (simp add: marketingResume_def marketingEnd_def Let_def)

lemma marketingLaunch_released_shape:
  assumes "gameReleased (gameState m)"
  shows "marketingLaunch e m =
           (m\<lparr> gameState := (gameState m)
                 \<lparr> lastAgentActivity :=
                     (lastAgentActivity (gameState m))\<lparr>marketing := Planning\<rparr> \<rparr> \<rparr>, None)"
  using assms by (simp add: marketingLaunch_def)

lemma activateMarketing_shape:
  "activateMarketing m =
     m\<lparr> gameState := (gameState m)
          \<lparr> marketingActive := marketingActive (gameState (activateMarketing m)) \<rparr> \<rparr>"
  by (simp add: activateMarketing_def)

subsection \<open>The command step and the launch of the Inquisitor\<close>

lemma inquisitor_line_producerEnd:
  "inquisitor (lastAgentActivity (gameState (producerEnd a s))) =
     inquisitor (lastAgentActivity (gameState s))"
  by (simp add: producerEnd_def releaseGame_def Let_def)

lemma inquisitor_line_producerLaunch:
  "inquisitor (lastAgentActivity (gameState (fst (producerLaunch e s)))) =
     inquisitor (lastAgentActivity (gameState s))"
  by (simp add: producerLaunch_def Let_def inquisitor_line_producerEnd)

lemma inquisitor_line_activateMarketing:
  "inquisitor (lastAgentActivity (gameState (activateMarketing s))) =
     inquisitor (lastAgentActivity (gameState s))"
  by (simp add: activateMarketing_def)

lemma inquisitor_line_marketingLaunch:
  "inquisitor (lastAgentActivity (gameState (fst (marketingLaunch e s)))) =
     inquisitor (lastAgentActivity (gameState s))"
  by (simp add: marketingLaunch_def marketingEnd_def Let_def split: option.splits)

lemma launch_without_inquisitor:
  "inquisitor (lastAgentActivity (gameState (fst (launchAgents e False m)))) =
     inquisitor (lastAgentActivity (gameState m))"
  by (simp add: launchAgents_alt Let_def inquisitor_line_marketingLaunch
      inquisitor_line_activateMarketing inquisitor_line_producerLaunch)

lemma commandStep_flag_cases:
  "fst (commandStep e s) =
     (case commandQueue (gameState s) of
        [] \<Rightarrow> False
      | input # rest \<Rightarrow>
          if input = [] \<or> trim input = [] then False
          else if startsWith input ''/declare''
          then length (quantumCore s) < length (quantumCore (snd (commandStep e s)))
          else if startsWith input ''/answer''
          then (case answerMatch input of
                  None \<Rightarrow> False
                | Some i \<Rightarrow> find (\<lambda>q. qid q = i) (unansweredQuestions s) \<noteq> None)
          else False)"
  by (simp add: commandStep_def Let_def translatorTurn_core translatorTurn_flag resolveAnswer_flag
      split: list.splits option.splits)


end
